theory Spec2Isabelle
  imports Complex_Main
begin

section \<open>Text-intersection add-on: the host and the interpreter\<close>

text \<open>
  The add-on is a script that drives Blender through \<^verbatim>\<open>bpy\<close>. Nothing of the geometry
  is computed by the script itself, so the model is a program over an unknown host: every
  use of \<^verbatim>\<open>bpy\<close> is a \<^emph>\<open>call\<close> that is appended to a trace, and the host (a parameter
  of every function below) decides from the history whether the call raises and what it
  returns.

  \<^item> A Python \<^verbatim>\<open>str\<close> is a list of code points (\<open>len\<close> counts code points).
    String constants of the script that never meet user input (object names, enum
    values, messages) stay HOL strings.
  \<^item> A Python \<^verbatim>\<open>float\<close> is carried as a real number. The script inspects floats only
    through the zero test of \<^verbatim>\<open>/\<close> and the comparison of \<^verbatim>\<open>min\<close>; rounding is not
    modelled, and a float expression occurs in a theorem only as the argument the script
    passes to the host, never with a value claimed for it.
  \<^item> An exception is a value: a program returns \<open>Inl e\<close> when it raises \<open>e\<close>.
\<close>

type_synonym pystr = "nat list"
type_synonym vec3 = "real \<times> real \<times> real"
type_synonym obj = nat
type_synonym modifier = nat
type_synonym font = nat

datatype axis = X | Y | Z

datatype exn = RuntimeError | ZeroDivisionError | IndexError | KeyError | AttributeError | TypeError

datatype status = FINISHED | CANCELLED

text \<open>The uses of \<^verbatim>\<open>bpy\<close> in the script, with their arguments in the order of
  the source: the operators of \<^verbatim>\<open>bpy.ops\<close>, the assignments to attributes of scene
  data, and the expressions that read scene data or create it.\<close>

datatype operator =
    Select_all string
  | Delete_objects
  | Text_add bool string vec3 vec3 vec3
  | Convert string
  | Modifier_apply string
  | Primitive_cube_add bool string vec3 vec3
  | Mesh_select_all string
  | Mode_set string
  | Transform_resize vec3
  | Join
  | Export_stl bool pystr string bool bool string string real

datatype assignment =
    Set_body obj pystr
  | Set_name obj string
  | Set_data_name obj string
  | Set_align_x obj string
  | Set_font obj font
  | Set_size obj real
  | Set_extrude obj real
  | Set_active obj
  | Set_use_auto_smooth obj bool
  | Set_polygon_select obj nat bool
  | Set_scale obj vec3
  | Set_location obj vec3

datatype modifier_assignment =
    Set_operation modifier string
  | Set_use_self modifier bool
  | Set_modifier_object modifier obj
  | Set_decimate_type modifier string

datatype query =
    Context_object
  | Data_objects string
  | Modifiers_new obj string string
  | Dimension obj axis
  | Fonts_load pystr

datatype call =
    Op operator
  | Assign assignment
  | Assign_modifier modifier_assignment
  | Query query
  | Print real
  | Report string string

text \<open>The trace records every call that was attempted and every exception that was
  raised, by the host or by the interpreter.\<close>

datatype event = Call call | Fail exn

text \<open>The host: from the history, whether a call raises, and what the calls that
  return something return.\<close>

record host =
  raises :: "event list \<Rightarrow> call \<Rightarrow> exn option"
  context_object :: "event list \<Rightarrow> obj"
  data_objects :: "event list \<Rightarrow> string \<Rightarrow> obj"
  new_modifier :: "event list \<Rightarrow> modifier"
  dimension :: "event list \<Rightarrow> obj \<Rightarrow> axis \<Rightarrow> real"
  loaded_font :: "event list \<Rightarrow> font"

type_synonym 'a prog = "event list \<Rightarrow> (exn + 'a) \<times> event list"

definition return :: "'a \<Rightarrow> 'a prog" where
  "return x = (\<lambda>tr. (Inr x, tr))"

definition raise :: "exn \<Rightarrow> 'a prog" where
  "raise e = (\<lambda>tr. (Inl e, tr @ [Fail e]))"

definition bind :: "'a prog \<Rightarrow> ('a \<Rightarrow> 'b prog) \<Rightarrow> 'b prog" where
  "bind m f = (\<lambda>tr. case m tr of
                      (Inl e, tr') \<Rightarrow> (Inl e, tr')
                    | (Inr x, tr') \<Rightarrow> f x tr')"

text \<open>A call into the host: it is recorded, and it raises or returns as the host says.
  The value returned is read from the history that ends with the call.\<close>

definition invoke :: "host \<Rightarrow> call \<Rightarrow> (event list \<Rightarrow> 'a) \<Rightarrow> 'a prog" where
  "invoke H c ret = (\<lambda>tr. case raises H tr c of
                             Some e \<Rightarrow> (Inl e, tr @ [Call c, Fail e])
                           | None \<Rightarrow> (Inr (ret (tr @ [Call c])), tr @ [Call c]))"

definition do_call :: "host \<Rightarrow> call \<Rightarrow> unit prog" where
  "do_call H c = invoke H c (\<lambda>_. ())"

text \<open>\<^verbatim>\<open>print\<close> and \<^verbatim>\<open>self.report\<close> write a message and touch nothing of the scene;
  they are recorded and taken not to raise.\<close>

definition emit :: "call \<Rightarrow> unit prog" where
  "emit c = (\<lambda>tr. (Inr (), tr @ [Call c]))"

text \<open>\<^verbatim>\<open>try: m except exc: handler\<close>\<close>

definition try_except :: "'a prog \<Rightarrow> exn \<Rightarrow> 'a prog \<Rightarrow> 'a prog" where
  "try_except m exc handler = (\<lambda>tr. case m tr of
                      (Inl e, tr') \<Rightarrow> (if e = exc then handler tr' else (Inl e, tr'))
                    | (Inr x, tr') \<Rightarrow> (Inr x, tr'))"

subsection \<open>What the interpreter does by itself\<close>

text \<open>\<^verbatim>\<open>a / b\<close> on numbers raises \<^verbatim>\<open>ZeroDivisionError\<close> when \<open>b\<close> is zero.\<close>

definition truediv :: "real \<Rightarrow> real \<Rightarrow> real prog" where
  "truediv a b = (if b = 0 then raise ZeroDivisionError else return (a / b))"

text \<open>\<^verbatim>\<open>s[i]\<close> for \<open>i\<close> taken from a \<^verbatim>\<open>range\<close> (never negative): a string of one
  character, or \<^verbatim>\<open>IndexError\<close>.\<close>

definition getitem :: "pystr \<Rightarrow> nat \<Rightarrow> pystr prog" where
  "getitem s i = (if i < length s then return [s ! i] else raise IndexError)"

text \<open>\<^verbatim>\<open>min(a, b, c)\<close>: the first of the smallest.\<close>

definition min3 :: "real \<Rightarrow> real \<Rightarrow> real \<Rightarrow> real" where
  "min3 a b c = (let m = a; m = (if b < m then b else m) in if c < m then c else m)"

definition radians :: "real \<Rightarrow> real" where
  "radians d = d * pi / 180"

text \<open>A constant of the script as a Python string.\<close>

definition lit :: "string \<Rightarrow> pystr" where
  "lit s = map of_char s"

text \<open>
  \<^verbatim>\<open>str.upper()\<close> replaces every code point by its full uppercase mapping, which may be
  longer than one code point. The mapping is Unicode's, not the script's: below U+0100
  it is written out (\<open>a\<close>..\<open>z\<close>, the micro sign, sharp s, the accented letters of
  Latin-1, y with diaeresis), above it is the parameter \<open>U\<close>.
\<close>

definition upper_latin1 :: "nat \<Rightarrow> nat list" where
  "upper_latin1 c =
     (if 97 \<le> c \<and> c \<le> 122 then [c - 32]
      else if c = 181 then [924]
      else if c = 223 then [83, 83]
      else if 224 \<le> c \<and> c \<le> 254 \<and> c \<noteq> 247 then [c - 32]
      else if c = 255 then [376]
      else [c])"

definition upper_char :: "(nat \<Rightarrow> nat list) \<Rightarrow> nat \<Rightarrow> nat list" where
  "upper_char U c = (if c < 256 then upper_latin1 c else U c)"

definition upper :: "(nat \<Rightarrow> nat list) \<Rightarrow> pystr \<Rightarrow> pystr" where
  "upper U s = concat (map (upper_char U) s)"

section \<open>The script\<close>

definition operator :: "host \<Rightarrow> operator \<Rightarrow> unit prog" where
  "operator H c = do_call H (Op c)"

definition assign :: "host \<Rightarrow> assignment \<Rightarrow> unit prog" where
  "assign H c = do_call H (Assign c)"

definition assign_modifier :: "host \<Rightarrow> modifier_assignment \<Rightarrow> unit prog" where
  "assign_modifier H c = do_call H (Assign_modifier c)"

text \<open>\<^verbatim>\<open>bpy.context.object\<close>, \<^verbatim>\<open>bpy.data.objects[name]\<close>, \<^verbatim>\<open>o.modifiers.new(name, type)\<close>,
  \<^verbatim>\<open>o.dimensions.x\<close> and \<^verbatim>\<open>bpy.data.fonts.load(filepath=p)\<close>.\<close>

definition get_context_object :: "host \<Rightarrow> obj prog" where
  "get_context_object H = invoke H (Query Context_object) (context_object H)"

definition get_data_object :: "host \<Rightarrow> string \<Rightarrow> obj prog" where
  "get_data_object H name = invoke H (Query (Data_objects name)) (\<lambda>tr. data_objects H tr name)"

definition modifiers_new :: "host \<Rightarrow> obj \<Rightarrow> string \<Rightarrow> string \<Rightarrow> modifier prog" where
  "modifiers_new H ob name ty = invoke H (Query (Modifiers_new ob name ty)) (new_modifier H)"

definition get_dimension :: "host \<Rightarrow> obj \<Rightarrow> axis \<Rightarrow> real prog" where
  "get_dimension H ob a = invoke H (Query (Dimension ob a)) (\<lambda>tr. dimension H tr ob a)"

definition fonts_load :: "host \<Rightarrow> pystr \<Rightarrow> font prog" where
  "fonts_load H p = invoke H (Query (Fonts_load p)) (loaded_font H)"

definition clear_workspace :: "host \<Rightarrow> unit prog" where
  "clear_workspace H =
     bind (operator H (Select_all ''SELECT'')) (\<lambda>_.
     operator H Delete_objects)"

definition create_text_object ::
  "host \<Rightarrow> pystr \<Rightarrow> real \<Rightarrow> string \<Rightarrow> real \<Rightarrow> real \<Rightarrow> real \<Rightarrow> font option \<Rightarrow> obj prog" where
  "create_text_object H txt extrude_size name rotation_z centre_position platform_height fnt =
     bind (operator H (Text_add False ''WORLD'' (0, centre_position, platform_height - 0.02)
                         (2, 2, 2) (radians 90, 0, rotation_z))) (\<lambda>_.
     bind (get_context_object H) (\<lambda>text_obj.
     bind (assign H (Set_body text_obj txt)) (\<lambda>_.
     bind (assign H (Set_name text_obj name)) (\<lambda>_.
     bind (assign H (Set_data_name text_obj (name @ '' data''))) (\<lambda>_.
     bind (assign H (Set_align_x text_obj ''CENTER'')) (\<lambda>_.
     bind (case fnt of None \<Rightarrow> return () | Some f \<Rightarrow> assign H (Set_font text_obj f)) (\<lambda>_.
     bind (assign H (Set_size text_obj 3)) (\<lambda>_.
     bind (assign H (Set_extrude text_obj extrude_size)) (\<lambda>_.
     bind (operator H (Convert ''MESH'')) (\<lambda>_.
     return text_obj))))))))))"

definition create_intersection_object :: "host \<Rightarrow> obj \<Rightarrow> obj prog" where
  "create_intersection_object H fst_text =
     bind (get_data_object H ''first text'') (\<lambda>o1.
     bind (assign H (Set_active o1)) (\<lambda>_.
     bind (modifiers_new H fst_text ''Intersection on first object'' ''BOOLEAN'') (\<lambda>fst_intersect_mod.
     bind (assign_modifier H (Set_operation fst_intersect_mod ''INTERSECT'')) (\<lambda>_.
     bind (assign_modifier H (Set_use_self fst_intersect_mod True)) (\<lambda>_.
     bind (get_data_object H ''second text'') (\<lambda>o2.
     bind (assign_modifier H (Set_modifier_object fst_intersect_mod o2)) (\<lambda>_.
     bind (operator H (Modifier_apply ''Intersection on first object'')) (\<lambda>_.
     bind (get_data_object H ''second text'') (\<lambda>o3.
     bind (assign H (Set_active o3)) (\<lambda>_.
     bind (operator H Delete_objects) (\<lambda>_.
     bind (get_data_object H ''first text'') (\<lambda>o4.
     bind (assign H (Set_active o4)) (\<lambda>_.
     bind (get_context_object H) (\<lambda>intersect_mesh.
     bind (assign H (Set_name intersect_mesh ''final mesh'')) (\<lambda>_.
     bind (assign H (Set_data_name intersect_mesh ''final mesh data'')) (\<lambda>_.
     bind (assign H (Set_use_auto_smooth intersect_mesh True)) (\<lambda>_.
     return intersect_mesh)))))))))))))))))"

definition add_platform :: "host \<Rightarrow> obj \<Rightarrow> real \<Rightarrow> real \<Rightarrow> real \<Rightarrow> real \<Rightarrow> bool \<Rightarrow> unit prog" where
  "add_platform H intersect_mesh centre_position platform_height width depth is_top_platform =
     (let z_location = (if is_top_platform then 1.98 + platform_height else 0) in
     bind (operator H (Primitive_cube_add True ''WORLD'' (0, centre_position, z_location)
                         (depth / 2 + 0.2, width / 2 + 0.2, platform_height))) (\<lambda>_.
     bind (get_context_object H) (\<lambda>platform_obj.
     bind (assign H (Set_name platform_obj ''platform'')) (\<lambda>_.
     bind (assign H (Set_data_name platform_obj ''platform data'')) (\<lambda>_.
     bind (operator H (Mesh_select_all ''DESELECT'')) (\<lambda>_.
     bind (operator H (Mode_set ''OBJECT'')) (\<lambda>_.
     bind (if is_top_platform then assign H (Set_polygon_select platform_obj 5 True)
           else assign H (Set_polygon_select platform_obj 4 True)) (\<lambda>_.
     bind (operator H (Mode_set ''EDIT'')) (\<lambda>_.
     bind (truediv (platform_height * 4) depth) (\<lambda>qd.
     bind (truediv (platform_height * 4) width) (\<lambda>qw.
     bind (operator H (Transform_resize (1 + qd, 1 + qw, 1))) (\<lambda>_.
     bind (operator H (Mode_set ''OBJECT'')) (\<lambda>_.
     bind (assign H (Set_active intersect_mesh)) (\<lambda>_.
     bind (modifiers_new H intersect_mesh ''Union of intersect mesh and platform'' ''BOOLEAN'') (\<lambda>union_mod.
     bind (assign_modifier H (Set_operation union_mod ''UNION'')) (\<lambda>_.
     bind (assign_modifier H (Set_use_self union_mod True)) (\<lambda>_.
     bind (get_data_object H ''platform'') (\<lambda>p1.
     bind (assign_modifier H (Set_modifier_object union_mod p1)) (\<lambda>_.
     bind (operator H (Modifier_apply ''Union of intersect mesh and platform'')) (\<lambda>_.
     bind (get_data_object H ''platform'') (\<lambda>p2.
     bind (assign H (Set_active p2)) (\<lambda>_.
     bind (operator H Delete_objects) (\<lambda>_.
     assign H (Set_active intersect_mesh))))))))))))))))))))))))"

definition finalize_mesh :: "host \<Rightarrow> real \<Rightarrow> unit prog" where
  "finalize_mesh H max_size =
     bind (operator H (Select_all ''SELECT'')) (\<lambda>_.
     bind (get_context_object H) (\<lambda>final_mesh.
     bind (modifiers_new H final_mesh ''Decimate modifier'' ''DECIMATE'') (\<lambda>decimate_mod.
     bind (assign_modifier H (Set_decimate_type decimate_mod ''DISSOLVE'')) (\<lambda>_.
     bind (operator H (Modifier_apply ''Decimate modifier'')) (\<lambda>_.
     bind (get_data_object H ''final mesh'') (\<lambda>final_obj.
     bind (get_dimension H final_obj X) (\<lambda>px.
     bind (emit (Print px)) (\<lambda>_.
     bind (get_dimension H final_obj Y) (\<lambda>py.
     bind (emit (Print py)) (\<lambda>_.
     bind (get_dimension H final_obj Z) (\<lambda>pz.
     bind (emit (Print pz)) (\<lambda>_.
     bind (get_dimension H final_obj X) (\<lambda>dx.
     bind (truediv max_size dx) (\<lambda>sx.
     bind (get_dimension H final_obj Y) (\<lambda>dy.
     bind (truediv max_size dy) (\<lambda>sy.
     bind (get_dimension H final_obj Z) (\<lambda>dz.
     bind (truediv max_size dz) (\<lambda>sz.
     (let scale = min3 sx sy sz in
      assign H (Set_scale final_obj (scale, scale, scale)))))))))))))))))))))"

definition export_to_stl :: "host \<Rightarrow> pystr \<Rightarrow> unit prog" where
  "export_to_stl H file =
     bind (operator H (Select_all ''SELECT'')) (\<lambda>_.
     operator H (Export_stl True file ''*.stl'' False True ''Y'' ''Z'' 1.0))"

definition single_mesh ::
  "host \<Rightarrow> pystr \<Rightarrow> pystr \<Rightarrow> bool \<Rightarrow> real \<Rightarrow> font option \<Rightarrow> int \<Rightarrow> unit prog" where
  "single_mesh H fst_w snd_w with_platform platform_height fnt centre_position =
     bind (create_text_object H fst_w (real (length snd_w * 2)) ''first text'' 0
             (real_of_int centre_position) platform_height fnt) (\<lambda>fst_text.
     bind (create_text_object H snd_w (real (length fst_w * 2)) ''second text'' (radians 90)
             (real_of_int centre_position) platform_height fnt) (\<lambda>_.
     bind (create_intersection_object H fst_text) (\<lambda>intersect_mesh.
     bind (get_dimension H intersect_mesh Z) (\<lambda>width.
     bind (get_dimension H intersect_mesh X) (\<lambda>depth.
     bind (add_platform H intersect_mesh (real_of_int centre_position) platform_height
             width depth False) (\<lambda>_.
     if with_platform
     then add_platform H intersect_mesh (real_of_int centre_position) platform_height
            width depth True
     else return ()))))))"

text \<open>The body of \<^verbatim>\<open>for i in range(fst_length)\<close>, over the indices still to come.\<close>

fun mesh_by_letters_loop ::
  "host \<Rightarrow> pystr \<Rightarrow> pystr \<Rightarrow> bool \<Rightarrow> real \<Rightarrow> font option \<Rightarrow> nat \<Rightarrow> nat list \<Rightarrow> unit prog" where
  "mesh_by_letters_loop H fst_word snd_word with_platform platform_height fnt fst_length [] =
     return ()"
| "mesh_by_letters_loop H fst_word snd_word with_platform platform_height fnt fst_length (i # is) =
     bind (getitem fst_word i) (\<lambda>a.
     bind (getitem snd_word i) (\<lambda>b.
     bind (single_mesh H a b with_platform platform_height fnt
             (int i * 2 - int fst_length div 2 - 2)) (\<lambda>_.
     mesh_by_letters_loop H fst_word snd_word with_platform platform_height fnt fst_length is)))"

definition mesh_by_letters ::
  "host \<Rightarrow> pystr \<Rightarrow> pystr \<Rightarrow> bool \<Rightarrow> real \<Rightarrow> font option \<Rightarrow> unit prog" where
  "mesh_by_letters H fst_word snd_word with_platform platform_height fnt =
     (let fst_length = length fst_word in
      mesh_by_letters_loop H fst_word snd_word with_platform platform_height fnt fst_length
        [0..<fst_length])"

definition main ::
  "host \<Rightarrow> pystr \<Rightarrow> pystr \<Rightarrow> bool \<Rightarrow> bool \<Rightarrow> real \<Rightarrow> font option \<Rightarrow> unit prog" where
  "main H fst_w snd_w by_letters with_top_platform platform_height fnt =
     bind (clear_workspace H) (\<lambda>_.
     bind (if by_letters
           then mesh_by_letters H fst_w snd_w with_top_platform platform_height fnt
           else single_mesh H fst_w snd_w with_top_platform platform_height fnt 0) (\<lambda>_.
     bind (operator H (Select_all ''SELECT'')) (\<lambda>_.
     bind (operator H Join) (\<lambda>_.
     bind (get_context_object H) (\<lambda>ob.
     assign H (Set_location ob (0, 0, 0)))))))"

subsection \<open>The two operators of the panel\<close>

record Model_mesh =
  fst_word :: pystr
  snd_word :: pystr
  font_path :: pystr
  by_letters :: bool
  platform_height :: real
  with_top_platform :: bool

record Export_model =
  filename :: pystr
  max_size :: int

text \<open>The \<^verbatim>\<open>try\<close> block of \<^verbatim>\<open>Model_mesh.execute\<close>: the font, or \<^verbatim>\<open>None\<close> after a
  \<^verbatim>\<open>RuntimeError\<close>.\<close>

definition load_font :: "host \<Rightarrow> pystr \<Rightarrow> font option prog" where
  "load_font H path =
     try_except (bind (fonts_load H path) (\<lambda>f. return (Some f))) RuntimeError
       (bind (emit (Report ''WARNING'' ''Could not load wanted font. Chose default instead.''))
          (\<lambda>_. return None))"

definition Model_mesh_execute :: "host \<Rightarrow> (nat \<Rightarrow> nat list) \<Rightarrow> Model_mesh \<Rightarrow> status prog" where
  "Model_mesh_execute H U self =
     (if by_letters self \<and> \<not> length (fst_word self) = length (snd_word self)
      then bind (emit (Report ''WARNING''
                   ''Words have to have the same length in order to model them separately by letters.''))
             (\<lambda>_. return CANCELLED)
      else bind (load_font H (font_path self)) (\<lambda>fnt.
           bind (main H (upper U (fst_word self)) (upper U (snd_word self)) (by_letters self)
                   (with_top_platform self) (platform_height self / 10) fnt) (\<lambda>_.
           return FINISHED)))"

definition Export_model_execute :: "host \<Rightarrow> Export_model \<Rightarrow> status prog" where
  "Export_model_execute H self =
     (if length (filename self) = 0
      then bind (emit (Report ''WARNING'' ''Invalid directory path.'')) (\<lambda>_. return CANCELLED)
      else bind (finalize_mesh H (real_of_int (max_size self) / 100)) (\<lambda>_.
           bind (export_to_stl H (filename self @ lit (CHR 0x5C # ''export.stl''))) (\<lambda>_.
           return FINISHED)))"

section \<open>Observing a run\<close>

text \<open>
  The calls that build, simplify and export the model, without the handles the host
  gave out: a text object is added and converted, a modifier is created, its kind is
  set, it is applied by name, a platform cube is added at height \<open>z\<close>, the scale is set
  (uniform or not), the STL exporter is called (file path and \<^verbatim>\<open>ascii\<close> flag).
\<close>

datatype step =
    TEXT_ADD
  | CONVERT string
  | NEW_MODIFIER string string
  | OPERATION string
  | DECIMATE_TYPE string
  | APPLY string
  | CUBE_ADD real
  | SCALE bool
  | EXPORT pystr bool

fun step_of :: "call \<Rightarrow> step option" where
  "step_of (Op (Text_add e a l s r)) = Some TEXT_ADD"
| "step_of (Op (Convert t)) = Some (CONVERT t)"
| "step_of (Query (Modifiers_new ob n t)) = Some (NEW_MODIFIER n t)"
| "step_of (Assign_modifier (Set_operation m op)) = Some (OPERATION op)"
| "step_of (Assign_modifier (Set_decimate_type m t)) = Some (DECIMATE_TYPE t)"
| "step_of (Op (Modifier_apply n)) = Some (APPLY n)"
| "step_of (Op (Primitive_cube_add e a (x, y, z) s)) = Some (CUBE_ADD z)"
| "step_of (Assign (Set_scale ob (x, y, z))) = Some (SCALE (x = y \<and> y = z))"
| "step_of (Op (Export_stl ce file g ascii m f u s)) = Some (EXPORT file ascii)"
| "step_of _ = None"

fun event_step :: "event \<Rightarrow> step option" where
  "event_step (Call c) = step_of c"
| "event_step (Fail e) = None"

definition steps :: "event list \<Rightarrow> step list" where
  "steps tr = List.map_filter event_step tr"

text \<open>The steps of one platform, of one model (\<^verbatim>\<open>single_mesh\<close>) and of the export.\<close>

definition platform_steps :: "real \<Rightarrow> step list" where
  "platform_steps z =
     [CUBE_ADD z, NEW_MODIFIER ''Union of intersect mesh and platform'' ''BOOLEAN'',
      OPERATION ''UNION'', APPLY ''Union of intersect mesh and platform'']"

definition model_steps :: "real \<Rightarrow> bool \<Rightarrow> step list" where
  "model_steps ph with_top =
     [TEXT_ADD, CONVERT ''MESH'', TEXT_ADD, CONVERT ''MESH'',
      NEW_MODIFIER ''Intersection on first object'' ''BOOLEAN'',
      OPERATION ''INTERSECT'', APPLY ''Intersection on first object'']
     @ platform_steps 0 @ (if with_top then platform_steps (1.98 + ph) else [])"

definition export_steps :: "pystr \<Rightarrow> step list" where
  "export_steps file =
     [NEW_MODIFIER ''Decimate modifier'' ''DECIMATE'', DECIMATE_TYPE ''DISSOLVE'',
      APPLY ''Decimate modifier'', SCALE True, EXPORT file False]"



fun is_platform :: "step \<Rightarrow> bool" where
  "is_platform (CUBE_ADD z) = True"
| "is_platform _ = False"

fun is_export :: "step \<Rightarrow> bool" where
  "is_export (EXPORT f a) = True"
| "is_export _ = False"

text \<open>The exceptions raised in the course of a run, in order, and the exception a result
  carries out of it.\<close>

fun failure :: "event \<Rightarrow> exn option" where
  "failure (Fail e) = Some e"
| "failure (Call c) = None"

definition failures :: "event list \<Rightarrow> exn list" where
  "failures tr = List.map_filter failure tr"

fun outcome :: "exn + 'a \<Rightarrow> exn list" where
  "outcome (Inl e) = [e]"
| "outcome (Inr v) = []"

text \<open>\<open>strict m\<close>: \<open>m\<close> only extends the history, and whatever is raised while it runs
  is what it raises itself: nothing is caught.\<close>

definition strict :: "'a prog \<Rightarrow> bool" where
  "strict m \<longleftrightarrow> (\<forall>tr. \<exists>new. snd (m tr) = tr @ new \<and> failures new = outcome (fst (m tr)))"

text \<open>\<open>fails_with m e\<close>: \<open>m\<close> raises \<open>e\<close> from every history.\<close>

definition fails_with :: "'a prog \<Rightarrow> exn \<Rightarrow> bool" where
  "fails_with m e \<longleftrightarrow> (\<forall>tr. fst (m tr) = Inl e)"

text \<open>The loop of \<^verbatim>\<open>mesh_by_letters\<close> as the specification describes it: the body once
  for every index, in order, with no index check.\<close>

fun for_each :: "'i list \<Rightarrow> ('i \<Rightarrow> unit prog) \<Rightarrow> unit prog" where
  "for_each [] body = return ()"
| "for_each (i # is) body = bind (body i) (\<lambda>_. for_each is body)"

text \<open>
  Two words that differ only in letter case, in the words of the specification: the same
  length, and at every position two code points with the same lowercase form
  (\<^verbatim>\<open>str.lower()\<close>, code point by code point). As for \<open>upper\<close> the mapping is written
  out below U+0100 (\<open>A\<close>..\<open>Z\<close> and the accented capitals of Latin-1) and is the
  parameter \<open>L\<close> above. The uppercase mapping takes no part in this definition.
\<close>

definition lower_latin1 :: "nat \<Rightarrow> nat list" where
  "lower_latin1 c =
     (if 65 \<le> c \<and> c \<le> 90 then [c + 32]
      else if 192 \<le> c \<and> c \<le> 222 \<and> c \<noteq> 215 then [c + 32]
      else [c])"

definition lower_char :: "(nat \<Rightarrow> nat list) \<Rightarrow> nat \<Rightarrow> nat list" where
  "lower_char L c = (if c < 256 then lower_latin1 c else L c)"

definition same_up_to_case :: "(nat \<Rightarrow> nat list) \<Rightarrow> pystr \<Rightarrow> pystr \<Rightarrow> bool" where
  "same_up_to_case L s t \<longleftrightarrow> list_all2 (\<lambda>c d. lower_char L c = lower_char L d) s t"

text \<open>A word of code points below U+0100 (ASCII and Latin-1).\<close>

definition latin1 :: "pystr \<Rightarrow> bool" where
  "latin1 s \<longleftrightarrow> list_all (\<lambda>c. c < 256) s"

text \<open>\<open>emits m ks\<close>: every run of \<open>m\<close> that returns adds exactly the steps \<open>ks\<close>.\<close>

definition emits :: "'a prog \<Rightarrow> step list \<Rightarrow> bool" where
  "emits m ks \<longleftrightarrow> (\<forall>tr v tr'. m tr = (Inr v, tr') \<longrightarrow> steps tr' = steps tr @ ks)"

text \<open>\<open>succeeds m Q\<close>: \<open>m\<close> returns from every history, with a value in \<open>Q\<close>.\<close>

definition succeeds :: "'a prog \<Rightarrow> ('a \<Rightarrow> bool) \<Rightarrow> bool" where
  "succeeds m Q \<longleftrightarrow> (\<forall>tr. \<exists>v tr'. m tr = (Inr v, tr') \<and> Q v)"

text \<open>A host on which the script runs through: no call raises, except that a font may
  fail to load with \<^verbatim>\<open>RuntimeError\<close>, and no object is flat.\<close>

definition calm :: "host \<Rightarrow> bool" where
  "calm H \<longleftrightarrow>
     (\<forall>tr c. raises H tr c = None \<or>
        (\<exists>p. c = Query (Fonts_load p) \<and> raises H tr c = Some RuntimeError)) \<and>
     (\<forall>tr ob a. dimension H tr ob a \<noteq> 0)"

subsection \<open>Sample hosts and inputs\<close>

text \<open>A host that never raises, numbers its objects by the length of the history and
  reports every dimension as 1; and an uppercase table that leaves the code points from
  U+0100 on alone.\<close>

definition quiet_host :: host where
  "quiet_host = \<lparr>raises = (\<lambda>tr c. None), context_object = (\<lambda>tr. length tr),
     data_objects = (\<lambda>tr n. length tr), new_modifier = (\<lambda>tr. length tr),
     dimension = (\<lambda>tr ob a. 1), loaded_font = (\<lambda>tr. 0)\<rparr>"

text \<open>The same host, except that no font can be loaded.\<close>

definition font_failing_host :: host where
  "font_failing_host = quiet_host\<lparr>raises :=
     (\<lambda>tr c. case c of Query (Fonts_load p) \<Rightarrow> Some RuntimeError | _ \<Rightarrow> None)\<rparr>"

definition no_upper :: "nat \<Rightarrow> nat list" where
  "no_upper c = [c]"

text \<open>A lowercase table for the code points from U+0100 on that knows one letter: the
  capital sharp s U+1E9E, whose lowercase form is the sharp s U+00DF. (Its uppercase
  form is itself, as \<open>no_upper\<close> has it.)\<close>

definition sharp_s_lower :: "nat \<Rightarrow> nat list" where
  "sharp_s_lower c = (if c = 7838 then [223] else [c])"

named_theorems emits_intros

named_theorems succeeds_intros

named_theorems strict_intros

section \<open>The interpreter and the script, step by step\<close>

lemma steps_append: "steps (a @ b) = steps a @ steps b"
  by (simp add: steps_def List.map_filter_def)

lemma steps_Nil: "steps [] = []"
  by (simp add: steps_def List.map_filter_def)

lemma steps_Call: "steps [Call c] = (case step_of c of None \<Rightarrow> [] | Some k \<Rightarrow> [k])"
  by (simp add: steps_def List.map_filter_def split: option.splits)

lemma emits_weaken: "emits m ks' \<Longrightarrow> ks = ks' \<Longrightarrow> emits m ks"
  by simp

lemma emits_bind [emits_intros]:
  "emits m ks1 \<Longrightarrow> (\<And>x. emits (f x) ks2) \<Longrightarrow> emits (bind m f) (ks1 @ ks2)"
  unfolding emits_def bind_def by (fastforce split: prod.splits sum.splits)

lemma emits_return [emits_intros]: "emits (return x) []"
  by (simp add: emits_def return_def)

lemma emits_raise [emits_intros]: "emits (raise e) ks"
  by (simp add: emits_def raise_def)

lemma emits_print [emits_intros]: "emits (emit (Print x)) []" "emits (emit (Report a b)) []"
  by (simp_all add: emits_def emit_def steps_append steps_Call)

lemma emits_truediv [emits_intros]: "emits (truediv a b) []"
  by (simp add: emits_def truediv_def return_def raise_def)

lemma emits_getitem [emits_intros]: "emits (getitem s i) []"
  by (simp add: emits_def getitem_def return_def raise_def)

lemma emits_if [emits_intros]:
  "emits a ks \<Longrightarrow> emits b ks \<Longrightarrow> emits (if c then a else b) ks"
  by simp

lemma emits_case_option [emits_intros]:
  "emits a ks \<Longrightarrow> (\<And>y. emits (b y) ks) \<Longrightarrow> emits (case x of None \<Rightarrow> a | Some y \<Rightarrow> b y) ks"
  by (simp split: option.splits)

lemma emits_invoke_None: "step_of c = None \<Longrightarrow> emits (invoke H c ret) []"
  by (auto simp: emits_def invoke_def steps_append steps_Call split: option.splits)

lemma emits_invoke_Some: "step_of c = Some k \<Longrightarrow> emits (invoke H c ret) [k]"
  by (auto simp: emits_def invoke_def steps_append steps_Call split: option.splits)

lemmas host_defs = operator_def assign_def assign_modifier_def do_call_def get_context_object_def
  get_data_object_def modifiers_new_def get_dimension_def fonts_load_def

lemma emits_operator [emits_intros]:
  "emits (operator H (Select_all a)) []"
  "emits (operator H Delete_objects) []"
  "emits (operator H (Text_add e al l s r)) [TEXT_ADD]"
  "emits (operator H (Convert t)) [CONVERT t]"
  "emits (operator H (Modifier_apply n)) [APPLY n]"
  "emits (operator H (Primitive_cube_add e al (x, y, z) s)) [CUBE_ADD z]"
  "emits (operator H (Mesh_select_all a)) []"
  "emits (operator H (Mode_set mo)) []"
  "emits (operator H (Transform_resize v)) []"
  "emits (operator H Join) []"
  "emits (operator H (Export_stl ce file g ascii mm fw up sc)) [EXPORT file ascii]"
  by (simp_all add: host_defs emits_invoke_None emits_invoke_Some)

lemma emits_assign [emits_intros]:
  "emits (assign H (Set_body ob t)) []"
  "emits (assign H (Set_name ob n)) []"
  "emits (assign H (Set_data_name ob n)) []"
  "emits (assign H (Set_align_x ob n)) []"
  "emits (assign H (Set_font ob f)) []"
  "emits (assign H (Set_size ob r)) []"
  "emits (assign H (Set_extrude ob r)) []"
  "emits (assign H (Set_active ob)) []"
  "emits (assign H (Set_use_auto_smooth ob b)) []"
  "emits (assign H (Set_polygon_select ob i b)) []"
  "emits (assign H (Set_scale ob (s, s, s))) [SCALE True]"
  "emits (assign H (Set_location ob v)) []"
  by (simp_all add: host_defs emits_invoke_None emits_invoke_Some)

lemma emits_assign_modifier [emits_intros]:
  "emits (assign_modifier H (Set_operation m op)) [OPERATION op]"
  "emits (assign_modifier H (Set_use_self m b)) []"
  "emits (assign_modifier H (Set_modifier_object m ob)) []"
  "emits (assign_modifier H (Set_decimate_type m t)) [DECIMATE_TYPE t]"
  by (simp_all add: host_defs emits_invoke_None emits_invoke_Some)

lemma emits_query [emits_intros]:
  "emits (get_context_object H) []"
  "emits (get_data_object H n) []"
  "emits (modifiers_new H ob n t) [NEW_MODIFIER n t]"
  "emits (get_dimension H ob a) []"
  "emits (fonts_load H p) []"
  by (simp_all add: host_defs emits_invoke_None emits_invoke_Some)

lemma create_text_object_emits [emits_intros]:
  "emits (create_text_object H txt ex name rz cp ph fnt) [TEXT_ADD, CONVERT ''MESH'']"
  unfolding create_text_object_def
  by (rule emits_weaken, (rule emits_intros)+, simp)

lemma create_intersection_object_emits [emits_intros]:
  "emits (create_intersection_object H t)
     [NEW_MODIFIER ''Intersection on first object'' ''BOOLEAN'',
      OPERATION ''INTERSECT'', APPLY ''Intersection on first object'']"
  unfolding create_intersection_object_def
  by (rule emits_weaken, (rule emits_intros)+, simp)

lemma add_platform_emits [emits_intros]:
  "emits (add_platform H m cp ph w d is_top)
     [CUBE_ADD (if is_top then 1.98 + ph else 0),
      NEW_MODIFIER ''Union of intersect mesh and platform'' ''BOOLEAN'',
      OPERATION ''UNION'', APPLY ''Union of intersect mesh and platform'']"
  unfolding add_platform_def Let_def
  by (rule emits_weaken, (rule emits_intros)+, simp)

lemma finalize_mesh_emits [emits_intros]:
  "emits (finalize_mesh H ms)
     [NEW_MODIFIER ''Decimate modifier'' ''DECIMATE'',
      DECIMATE_TYPE ''DISSOLVE'', APPLY ''Decimate modifier'', SCALE True]"
  unfolding finalize_mesh_def Let_def
  by (rule emits_weaken, (rule emits_intros)+, simp)

lemma export_to_stl_emits [emits_intros]:
  "emits (export_to_stl H file) [EXPORT file False]"
  unfolding export_to_stl_def
  by (rule emits_weaken, (rule emits_intros)+, simp)

lemma succeeds_bind [succeeds_intros]:
  "succeeds m Q \<Longrightarrow> (\<And>x. Q x \<Longrightarrow> succeeds (f x) R) \<Longrightarrow> succeeds (bind m f) R"
  unfolding succeeds_def bind_def
proof (intro allI)
  fix tr
  assume m: "\<forall>tr. \<exists>v tr'. m tr = (Inr v, tr') \<and> Q v"
    and f: "\<And>x. Q x \<Longrightarrow> \<forall>tr. \<exists>v tr'. f x tr = (Inr v, tr') \<and> R v"
  from m obtain x t where 1: "m tr = (Inr x, t)" "Q x" by blast
  from f[OF 1(2)] obtain v t' where 2: "f x t = (Inr v, t')" "R v" by blast
  show "\<exists>v tr'. (case m tr of (Inl e, tr') \<Rightarrow> (Inl e, tr') | (Inr x, tr') \<Rightarrow> f x tr') = (Inr v, tr') \<and> R v"
    using 1 2 by simp
qed

lemma succeeds_return [succeeds_intros]: "succeeds (return x) (\<lambda>_. True)"
  by (simp add: succeeds_def return_def)

lemma succeeds_emit [succeeds_intros]: "succeeds (emit c) (\<lambda>_. True)"
  by (simp add: succeeds_def emit_def)

lemma succeeds_truediv [succeeds_intros]: "b \<noteq> 0 \<Longrightarrow> succeeds (truediv a b) (\<lambda>_. True)"
  by (simp add: succeeds_def truediv_def return_def)

lemma succeeds_if [succeeds_intros]:
  "succeeds a Q \<Longrightarrow> succeeds b Q \<Longrightarrow> succeeds (if c then a else b) Q"
  by simp

lemma succeeds_case_option [succeeds_intros]:
  "succeeds a Q \<Longrightarrow> (\<And>y. succeeds (b y) Q) \<Longrightarrow> succeeds (case x of None \<Rightarrow> a | Some y \<Rightarrow> b y) Q"
  by (simp split: option.splits)

lemma succeeds_host [succeeds_intros]:
  assumes "calm H"
  shows "succeeds (operator H c) (\<lambda>_. True)"
    and "succeeds (assign H a) (\<lambda>_. True)"
    and "succeeds (assign_modifier H ma) (\<lambda>_. True)"
    and "succeeds (get_context_object H) (\<lambda>_. True)"
    and "succeeds (get_data_object H n) (\<lambda>_. True)"
    and "succeeds (modifiers_new H ob n t) (\<lambda>_. True)"
    and "succeeds (get_dimension H ob ax) (\<lambda>v. v \<noteq> 0)"
proof -
  have "\<And>tr c. (\<forall>p. c \<noteq> Query (Fonts_load p)) \<Longrightarrow> raises H tr c = None"
    using assms unfolding calm_def by blast
  moreover have "\<And>tr. dimension H tr ob ax \<noteq> 0"
    using assms unfolding calm_def by blast
  ultimately show "succeeds (operator H c) (\<lambda>_. True)"
    and "succeeds (assign H a) (\<lambda>_. True)"
    and "succeeds (assign_modifier H ma) (\<lambda>_. True)"
    and "succeeds (get_context_object H) (\<lambda>_. True)"
    and "succeeds (get_data_object H n) (\<lambda>_. True)"
    and "succeeds (modifiers_new H ob n t) (\<lambda>_. True)"
    and "succeeds (get_dimension H ob ax) (\<lambda>v. v \<noteq> 0)"
    by (simp_all add: succeeds_def host_defs invoke_def)
qed

lemma succeeds_weaken: "succeeds m Q \<Longrightarrow> succeeds m (\<lambda>_. True)"
  unfolding succeeds_def by blast

lemma create_text_object_succeeds [succeeds_intros]:
  "calm H \<Longrightarrow> succeeds (create_text_object H txt ex name rz cp ph fnt) (\<lambda>_. True)"
  unfolding create_text_object_def
  by (rule succeeds_intros | assumption)+

lemma create_intersection_object_succeeds [succeeds_intros]:
  "calm H \<Longrightarrow> succeeds (create_intersection_object H t) (\<lambda>_. True)"
  unfolding create_intersection_object_def
  by (rule succeeds_intros | assumption)+

lemma add_platform_succeeds [succeeds_intros]:
  "calm H \<Longrightarrow> w \<noteq> 0 \<Longrightarrow> d \<noteq> 0 \<Longrightarrow> succeeds (add_platform H m cp ph w d is_top) (\<lambda>_. True)"
  unfolding add_platform_def Let_def
  by (rule succeeds_intros | assumption)+

lemma finalize_mesh_succeeds [succeeds_intros]:
  "calm H \<Longrightarrow> succeeds (finalize_mesh H ms) (\<lambda>_. True)"
  unfolding finalize_mesh_def Let_def
  by (rule succeeds_intros | assumption)+

lemma export_to_stl_succeeds [succeeds_intros]:
  "calm H \<Longrightarrow> succeeds (export_to_stl H file) (\<lambda>_. True)"
  unfolding export_to_stl_def
  by (rule succeeds_intros | assumption)+

lemma single_mesh_succeeds [succeeds_intros]:
  "calm H \<Longrightarrow> succeeds (single_mesh H a b wp ph fnt cp) (\<lambda>_. True)"
  unfolding single_mesh_def
  by (rule succeeds_intros | assumption)+

lemma calm_quiet_host: "calm quiet_host"
  by (simp add: calm_def quiet_host_def)

lemma emitsD: "emits m ks \<Longrightarrow> fst (m tr) = Inr v \<Longrightarrow> steps (snd (m tr)) = steps tr @ ks"
  unfolding emits_def by (cases "m tr") auto

lemma emits_if_list:
  "emits a ks1 \<Longrightarrow> emits b ks2 \<Longrightarrow> emits (if c then a else b) (if c then ks1 else ks2)"
  by simp

lemma single_mesh_emits: "emits (single_mesh H a b wp ph fnt cp) (model_steps ph wp)"
  unfolding single_mesh_def
  by (rule emits_weaken, (rule emits_if_list emits_intros)+,
      simp add: model_steps_def platform_steps_def)

lemma mesh_by_letters_loop_emits:
  "emits (mesh_by_letters_loop H f s wp ph fnt n is)
     (concat (replicate (length is) (model_steps ph wp)))"
proof (induction "is")
  case Nil
  show ?case by (simp add: emits_return)
next
  case (Cons i "is")
  show ?case
    unfolding mesh_by_letters_loop.simps
    by (rule emits_weaken, (rule emits_intros single_mesh_emits Cons.IH)+, simp)
qed

lemma mesh_by_letters_emits:
  "emits (mesh_by_letters H f s wp ph fnt) (concat (replicate (length f) (model_steps ph wp)))"
  unfolding mesh_by_letters_def Let_def
  using mesh_by_letters_loop_emits [of H f s wp ph fnt "length f" "[0..<length f]"] by simp

lemma main_emits:
  "emits (main H f s bl wp ph fnt)
     (concat (replicate (if bl then length f else 1) (model_steps ph wp)))"
  unfolding main_def clear_workspace_def
  by (rule emits_weaken,
      (rule emits_if_list mesh_by_letters_emits single_mesh_emits emits_intros)+, simp)


lemma Model_mesh_execute_cancel:
  "by_letters self \<Longrightarrow> length (fst_word self) \<noteq> length (snd_word self) \<Longrightarrow>
     Model_mesh_execute H U self tr = (Inr CANCELLED, tr @ [Call (Report ''WARNING''
       ''Words have to have the same length in order to model them separately by letters.'')])"
  by (simp add: Model_mesh_execute_def bind_def emit_def return_def)



lemma Export_model_execute_cancel:
  "length (filename self) = 0 \<Longrightarrow>
     Export_model_execute H self tr =
       (Inr CANCELLED, tr @ [Call (Report ''WARNING'' ''Invalid directory path.'')])"
  by (simp add: Export_model_execute_def bind_def emit_def return_def)

lemma Export_model_execute_FINISHED:
  assumes "fst (Export_model_execute H self tr) = Inr FINISHED"
  shows "filename self \<noteq> []"
proof
  assume "filename self = []"
  then have "fst (Export_model_execute H self tr) = Inr CANCELLED"
    by (simp add: Export_model_execute_cancel)
  with assms show False by simp
qed

lemma Export_model_execute_emits:
  assumes "fst (Export_model_execute H self tr) = Inr FINISHED"
  shows "steps (snd (Export_model_execute H self tr)) = steps tr @
     export_steps (filename self @ lit (CHR 0x5C # ''export.stl''))"
proof -
  let ?body = "bind (finalize_mesh H (real_of_int (max_size self) / 100)) (\<lambda>_.
           bind (export_to_stl H (filename self @ lit (CHR 0x5C # ''export.stl''))) (\<lambda>_.
           return FINISHED))"
  have eq: "Export_model_execute H self = ?body"
    using Export_model_execute_FINISHED [OF assms] by (auto simp: Export_model_execute_def)
  have "emits ?body (export_steps (filename self @ lit (CHR 0x5C # ''export.stl'')))"
    by (rule emits_weaken, (rule emits_intros)+, simp add: export_steps_def)
  from emitsD [OF this] assms show ?thesis unfolding eq by simp
qed

lemma succeedsD: "succeeds m Q \<Longrightarrow> \<exists>v. fst (m tr) = Inr v \<and> Q v"
  unfolding succeeds_def by (metis fst_conv)

lemma succeeds_getitem [succeeds_intros]: "i < length s \<Longrightarrow> succeeds (getitem s i) (\<lambda>_. True)"
  by (simp add: succeeds_def getitem_def return_def)

lemma mesh_by_letters_loop_succeeds:
  "calm H \<Longrightarrow> \<forall>i\<in>set is. i < length f \<and> i < length s \<Longrightarrow>
     succeeds (mesh_by_letters_loop H f s wp ph fnt n is) (\<lambda>_. True)"
proof (induction "is")
  case Nil
  show ?case by (simp add: succeeds_return)
next
  case (Cons i "is")
  have i: "i < length f" "i < length s" using Cons.prems(2) by simp_all
  have IH: "succeeds (mesh_by_letters_loop H f s wp ph fnt n is) (\<lambda>_. True)"
    using Cons by simp
  show ?case
    unfolding mesh_by_letters_loop.simps
    by (rule succeeds_intros IH i Cons.prems(1))+
qed

lemma mesh_by_letters_succeeds:
  "calm H \<Longrightarrow> length f \<le> length s \<Longrightarrow> succeeds (mesh_by_letters H f s wp ph fnt) (\<lambda>_. True)"
  unfolding mesh_by_letters_def Let_def
  by (rule mesh_by_letters_loop_succeeds) auto

lemma main_succeeds:
  assumes "calm H" and "bl \<longrightarrow> length f \<le> length s"
  shows "succeeds (main H f s bl wp ph fnt) (\<lambda>_. True)"
proof -
  have body: "succeeds (if bl then mesh_by_letters H f s wp ph fnt
                        else single_mesh H f s wp ph fnt 0) (\<lambda>_. True)"
    using assms by (cases bl) (simp_all add: mesh_by_letters_succeeds single_mesh_succeeds)
  show ?thesis
    unfolding main_def clear_workspace_def
    by (rule body succeeds_intros assms(1))+
qed

lemma load_font_None:
  "raises H tr (Query (Fonts_load p)) = None \<Longrightarrow>
     load_font H p tr = (Inr (Some (loaded_font H (tr @ [Call (Query (Fonts_load p))]))),
                         tr @ [Call (Query (Fonts_load p))])"
  by (simp add: load_font_def try_except_def bind_def fonts_load_def invoke_def return_def)

lemma load_font_RuntimeError:
  "raises H tr (Query (Fonts_load p)) = Some RuntimeError \<Longrightarrow>
     load_font H p tr = (Inr None,
        tr @ [Call (Query (Fonts_load p)), Fail RuntimeError,
              Call (Report ''WARNING'' ''Could not load wanted font. Chose default instead.'')])"
  by (simp add: load_font_def try_except_def bind_def fonts_load_def invoke_def return_def
        emit_def)

lemma load_font_other:
  "raises H tr (Query (Fonts_load p)) = Some e \<Longrightarrow> e \<noteq> RuntimeError \<Longrightarrow>
     load_font H p tr = (Inl e, tr @ [Call (Query (Fonts_load p)), Fail e])"
  by (simp add: load_font_def try_except_def bind_def fonts_load_def invoke_def return_def)

lemma load_font_succeeds:
  assumes "calm H"
  shows "succeeds (load_font H p) (\<lambda>_. True)"
  unfolding succeeds_def
proof
  fix tr
  from assms have "raises H tr (Query (Fonts_load p)) = None \<or>
                   raises H tr (Query (Fonts_load p)) = Some RuntimeError"
    unfolding calm_def by blast
  then show "\<exists>v tr'. load_font H p tr = (Inr v, tr') \<and> True"
    by (auto simp: load_font_None load_font_RuntimeError)
qed

lemma Model_mesh_execute_succeeds:
  assumes "calm H"
    and "\<not> (by_letters self \<and> length (fst_word self) \<noteq> length (snd_word self))"
    and "by_letters self \<longrightarrow> length (upper U (fst_word self)) \<le> length (upper U (snd_word self))"
  shows "fst (Model_mesh_execute H U self tr) = Inr FINISHED"
proof -
  let ?body = "bind (load_font H (font_path self)) (\<lambda>fnt.
           bind (main H (upper U (fst_word self)) (upper U (snd_word self)) (by_letters self)
                   (with_top_platform self) (platform_height self / 10) fnt) (\<lambda>_.
           return FINISHED))"
  have eq: "Model_mesh_execute H U self = ?body"
    using assms(2) by (auto simp: Model_mesh_execute_def)
  have "succeeds ?body (\<lambda>v. v = FINISHED)"
    by (rule succeeds_bind [OF load_font_succeeds [OF assms(1)]],
        rule succeeds_bind [OF main_succeeds [OF assms(1) assms(3)]])
       (simp add: succeeds_def return_def)
  from succeedsD [OF this] show ?thesis unfolding eq by auto
qed

lemma Export_model_execute_succeeds:
  assumes "calm H" and "filename self \<noteq> []"
  shows "fst (Export_model_execute H self tr) = Inr FINISHED"
proof -
  let ?body = "bind (finalize_mesh H (real_of_int (max_size self) / 100)) (\<lambda>_.
           bind (export_to_stl H (filename self @ lit (CHR 0x5C # ''export.stl''))) (\<lambda>_.
           return FINISHED))"
  have eq: "Export_model_execute H self = ?body"
    using assms(2) by (auto simp: Export_model_execute_def)
  have "succeeds ?body (\<lambda>v. v = FINISHED)"
    by (rule succeeds_bind [OF finalize_mesh_succeeds [OF assms(1)]],
        rule succeeds_bind [OF export_to_stl_succeeds [OF assms(1)]])
       (simp add: succeeds_def return_def)
  from succeedsD [OF this] show ?thesis unfolding eq by auto
qed

lemma emitsD': "emits m ks \<Longrightarrow> m tr = (Inr v, tr') \<Longrightarrow> steps tr' = steps tr @ ks"
  unfolding emits_def by blast

lemma runD: "fst (m tr) = r \<Longrightarrow> m tr = (r, snd (m tr))"
  by (cases "m tr") simp


lemma upper_ab: "upper U (lit ''ab'') = [65, 66]" "upper U (lit ''cd'') = [67, 68]"
  by (simp_all add: upper_def upper_char_def lit_def upper_latin1_def)

lemma succeeds_run: "succeeds m Q \<Longrightarrow> \<exists>v tr'. m tr = (Inr v, tr') \<and> Q v"
  unfolding succeeds_def by blast

lemma export_to_stl_Inr:
  "export_to_stl H f t = (Inr v, t') \<Longrightarrow>
     t' = t @ [Call (Op (Select_all ''SELECT'')),
               Call (Op (Export_stl True f ''*.stl'' False True ''Y'' ''Z'' 1))]"
  by (auto simp: export_to_stl_def operator_def do_call_def invoke_def bind_def
           split: option.splits prod.splits sum.splits)

lemma Export_model_execute_last:
  assumes "Export_model_execute H self tr = (Inr FINISHED, tr')"
  shows "\<exists>t. tr' = t @ [Call (Op (Select_all ''SELECT'')),
      Call (Op (Export_stl True (filename self @ lit (CHR 0x5C # ''export.stl''))
                  ''*.stl'' False True ''Y'' ''Z'' 1))]"
proof -
  have ne: "filename self \<noteq> []"
    using Export_model_execute_FINISHED [of H self tr] assms by simp
  from assms ne obtain u t v where
    "export_to_stl H (filename self @ lit (CHR 0x5C # ''export.stl'')) t = (Inr v, tr')"
    by (auto simp: Export_model_execute_def bind_def return_def split: prod.splits sum.splits)
  from export_to_stl_Inr [OF this] show ?thesis by blast
qed

lemma single_mesh_platforms:
  assumes "single_mesh H a b wp ph fnt cp tr = (Inr v, tr')"
  shows "filter is_platform (steps tr') =
           filter is_platform (steps tr) @
           (if wp then [CUBE_ADD 0, CUBE_ADD (1.98 + ph)] else [CUBE_ADD 0])"
    and "filter (\<lambda>k. k = APPLY ''Union of intersect mesh and platform'') (steps tr') =
           filter (\<lambda>k. k = APPLY ''Union of intersect mesh and platform'') (steps tr) @
           replicate (if wp then 2 else 1) (APPLY ''Union of intersect mesh and platform'')"
proof -
  have s: "steps tr' = steps tr @ model_steps ph wp"
    using emitsD' [OF single_mesh_emits assms] .
  show "filter is_platform (steps tr') =
           filter is_platform (steps tr) @
           (if wp then [CUBE_ADD 0, CUBE_ADD (1.98 + ph)] else [CUBE_ADD 0])"
    unfolding s by (simp add: model_steps_def platform_steps_def)
  show "filter (\<lambda>k. k = APPLY ''Union of intersect mesh and platform'') (steps tr') =
           filter (\<lambda>k. k = APPLY ''Union of intersect mesh and platform'') (steps tr) @
           replicate (if wp then 2 else 1) (APPLY ''Union of intersect mesh and platform'')"
    unfolding s by (simp add: model_steps_def platform_steps_def eval_nat_numeral)
qed

lemma bind_return: "bind (return x) f = f x"
  by (simp add: bind_def return_def)

lemma getitem_in_range: "i < length s \<Longrightarrow> getitem s i = return [s ! i]"
  by (simp add: getitem_def)

lemma mesh_by_letters_loop_for_each:
  "\<forall>i\<in>set is. i < length f \<and> i < length s \<Longrightarrow>
     mesh_by_letters_loop H f s wp ph fnt n is =
       for_each is (\<lambda>i. single_mesh H [f ! i] [s ! i] wp ph fnt
                            (int i * 2 - int n div 2 - 2))"
  by (induction "is") (simp_all add: getitem_in_range bind_return)

lemma mesh_by_letters_for_each:
  "length f = length s \<Longrightarrow>
     mesh_by_letters H f s wp ph fnt =
       for_each [0..<length f] (\<lambda>i. single_mesh H [f ! i] [s ! i] wp ph fnt
                            (int i * 2 - int (length f) div 2 - 2))"
  unfolding mesh_by_letters_def Let_def
  by (rule mesh_by_letters_loop_for_each) simp

lemma upper_latin1_lower:
  "c < 256 \<Longrightarrow> d < 256 \<Longrightarrow> lower_latin1 c = lower_latin1 d \<Longrightarrow> upper_latin1 c = upper_latin1 d"
  unfolding lower_latin1_def upper_latin1_def
  by (simp split: if_splits) arith+

lemma same_up_to_case_upper:
  "same_up_to_case L s t \<Longrightarrow> latin1 s \<Longrightarrow> latin1 t \<Longrightarrow> upper U s = upper U t"
  unfolding same_up_to_case_def upper_def latin1_def
  by (induction s t rule: list_all2_induct)
     (simp_all add: upper_char_def lower_char_def upper_latin1_lower)

lemma same_up_to_case_length: "same_up_to_case L s t \<Longrightarrow> length s = length t"
  unfolding same_up_to_case_def by (rule list_all2_lengthD)

lemma failures_simps:
  "failures [] = []"
  "failures (Call c # tr) = failures tr"
  "failures (Fail e # tr) = e # failures tr"
  "failures (a @ b) = failures a @ failures b"
  by (simp_all add: failures_def List.map_filter_def)

lemma strictD:
  assumes "strict m" and "m tr = (r, tr')"
  shows "\<exists>new. tr' = tr @ new \<and> failures new = outcome r"
  using assms unfolding strict_def by (metis fst_conv snd_conv)

lemma strict_return [strict_intros]: "strict (return x)"
  by (simp add: strict_def return_def failures_simps)

lemma strict_raise [strict_intros]: "strict (raise e)"
  by (simp add: strict_def raise_def failures_simps)

lemma strict_emit [strict_intros]: "strict (emit c)"
  by (simp add: strict_def emit_def failures_simps)

lemma strict_invoke: "strict (invoke H c ret)"
  by (simp add: strict_def invoke_def failures_simps split: option.splits)

lemma strict_host [strict_intros]:
  "strict (operator H c)" "strict (assign H a)" "strict (assign_modifier H ma)"
  "strict (get_context_object H)" "strict (get_data_object H n)"
  "strict (modifiers_new H ob n t)" "strict (get_dimension H ob ax)" "strict (fonts_load H p)"
  by (simp_all add: host_defs strict_invoke)

lemma strict_truediv [strict_intros]: "strict (truediv a b)"
  by (simp add: truediv_def strict_return strict_raise)

lemma strict_getitem [strict_intros]: "strict (getitem s i)"
  by (simp add: getitem_def strict_return strict_raise)

lemma strict_if [strict_intros]: "strict a \<Longrightarrow> strict b \<Longrightarrow> strict (if c then a else b)"
  by simp

lemma strict_case_option [strict_intros]:
  "strict a \<Longrightarrow> (\<And>y. strict (b y)) \<Longrightarrow> strict (case x of None \<Rightarrow> a | Some y \<Rightarrow> b y)"
  by (simp split: option.splits)

lemma strict_bind [strict_intros]:
  assumes "strict m" and "\<And>x. strict (f x)"
  shows "strict (bind m f)"
  unfolding strict_def
proof
  fix tr
  obtain r t where m: "m tr = (r, t)" by (cases "m tr")
  from strictD [OF assms(1) m] obtain new where
    new: "t = tr @ new" "failures new = outcome r" by blast
  show "\<exists>new. snd (bind m f tr) = tr @ new \<and> failures new = outcome (fst (bind m f tr))"
  proof (cases r)
    case (Inl e)
    then show ?thesis using m new by (simp add: bind_def)
  next
    case (Inr x)
    obtain r' t' where f: "f x t = (r', t')" by (cases "f x t")
    from strictD [OF assms(2) f] obtain new' where
      new': "t' = t @ new'" "failures new' = outcome r'" by blast
    have "bind m f tr = (r', t')" using m Inr f by (simp add: bind_def)
    moreover have "t' = tr @ (new @ new')" using new new' by simp
    moreover have "failures (new @ new') = outcome r'"
      using new new' Inr by (simp add: failures_simps)
    ultimately show ?thesis by (metis fst_conv snd_conv)
  qed
qed

lemma strict_create_text_object [strict_intros]:
  "strict (create_text_object H txt ex name rz cp ph fnt)"
  unfolding create_text_object_def by (rule strict_intros)+

lemma strict_create_intersection_object [strict_intros]:
  "strict (create_intersection_object H t)"
  unfolding create_intersection_object_def by (rule strict_intros)+

lemma strict_add_platform [strict_intros]:
  "strict (add_platform H m cp ph w d is_top)"
  unfolding add_platform_def Let_def by (rule strict_intros)+

lemma strict_finalize_mesh [strict_intros]: "strict (finalize_mesh H ms)"
  unfolding finalize_mesh_def Let_def by (rule strict_intros)+

lemma strict_export_to_stl [strict_intros]: "strict (export_to_stl H file)"
  unfolding export_to_stl_def by (rule strict_intros)+

lemma strict_single_mesh [strict_intros]: "strict (single_mesh H a b wp ph fnt cp)"
  unfolding single_mesh_def by (rule strict_intros)+

lemma strict_mesh_by_letters_loop: "strict (mesh_by_letters_loop H f s wp ph fnt n is)"
proof (induction "is")
  case Nil
  show ?case by (simp add: strict_return)
next
  case (Cons i "is")
  show ?case unfolding mesh_by_letters_loop.simps by (rule strict_intros Cons.IH)+
qed

lemma strict_mesh_by_letters [strict_intros]: "strict (mesh_by_letters H f s wp ph fnt)"
  unfolding mesh_by_letters_def Let_def by (rule strict_mesh_by_letters_loop)

lemma strict_main [strict_intros]: "strict (main H f s bl wp ph fnt)"
  unfolding main_def clear_workspace_def by (rule strict_intros)+

lemma strict_Export_model_execute: "strict (Export_model_execute H self)"
  unfolding Export_model_execute_def by (rule strict_intros)+

lemma Model_mesh_execute_failures:
  assumes "Model_mesh_execute H U self tr = (r, tr')"
  shows "\<exists>new. tr' = tr @ new \<and>
     failures new =
       (if \<not> (by_letters self \<and> length (fst_word self) \<noteq> length (snd_word self)) \<and>
           raises H tr (Query (Fonts_load (font_path self))) = Some RuntimeError
        then [RuntimeError] else []) @ outcome r"
proof (cases "by_letters self \<and> length (fst_word self) \<noteq> length (snd_word self)")
  case True
  then show ?thesis using assms by (auto simp: Model_mesh_execute_cancel failures_simps)
next
  case False
  let ?rest = "\<lambda>fnt. bind (main H (upper U (fst_word self)) (upper U (snd_word self))
      (by_letters self) (with_top_platform self) (platform_height self / 10) fnt)
      (\<lambda>_. return FINISHED)"
  have eq: "Model_mesh_execute H U self tr = bind (load_font H (font_path self)) ?rest tr"
    using False by (auto simp: Model_mesh_execute_def)
  have rest: "\<And>fnt. strict (?rest fnt)" by (rule strict_intros)+
  let ?c = "Query (Fonts_load (font_path self))"
  show ?thesis
  proof (cases "raises H tr ?c")
    case None
    from load_font_None [OF None] eq assms obtain fnt where
      "?rest fnt (tr @ [Call ?c]) = (r, tr')" by (simp add: bind_def)
    from strictD [OF rest this] obtain new where
      "tr' = (tr @ [Call ?c]) @ new" "failures new = outcome r" by blast
    then have "tr' = tr @ (Call ?c # new)" "failures (Call ?c # new) = outcome r"
      by (simp_all add: failures_simps)
    then show ?thesis using None False by auto
  next
    case (Some e)
    show ?thesis
    proof (cases "e = RuntimeError")
      case True
      let ?pre = "[Call ?c, Fail RuntimeError,
              Call (Report ''WARNING'' ''Could not load wanted font. Chose default instead.'')]"
      from Some True have "raises H tr ?c = Some RuntimeError" by simp
      from load_font_RuntimeError [OF this] eq assms have
        "?rest None (tr @ ?pre) = (r, tr')" by (simp add: bind_def)
      from strictD [OF rest this] obtain new where
        "tr' = (tr @ ?pre) @ new" "failures new = outcome r" by blast
      then have "tr' = tr @ (?pre @ new)" "failures (?pre @ new) = [RuntimeError] @ outcome r"
        by (simp_all add: failures_simps)
      then show ?thesis using Some True False by auto
    next
      case False
      from load_font_other [OF Some False] eq assms have
        "r = Inl e" "tr' = tr @ [Call ?c, Fail e]" by (simp_all add: bind_def)
      then show ?thesis using Some False by (auto simp: failures_simps)
    qed
  qed
qed

lemma calm_font_failing_host: "calm font_failing_host"
  by (auto simp: calm_def font_failing_host_def quiet_host_def split: call.splits query.splits)

lemma fails_with_raise: "fails_with (raise e) e"
  by (simp add: fails_with_def raise_def)

lemma fails_with_bind_left:
  assumes "fails_with m e"
  shows "fails_with (bind m f) e"
  unfolding fails_with_def
proof
  fix tr
  obtain r t where m: "m tr = (r, t)" by (cases "m tr")
  with assms have "r = Inl e" unfolding fails_with_def by (metis fst_conv)
  with m show "fst (bind m f tr) = Inl e" by (simp add: bind_def)
qed

lemma fails_with_bind_right:
  assumes "succeeds m Q" and "\<And>x. fails_with (f x) e"
  shows "fails_with (bind m f) e"
  unfolding fails_with_def
proof
  fix tr
  from succeeds_run [OF assms(1)] obtain v t where "m tr = (Inr v, t)" by blast
  then show "fst (bind m f tr) = Inl e"
    using assms(2) by (simp add: bind_def fails_with_def)
qed

lemma clear_workspace_succeeds: "calm H \<Longrightarrow> succeeds (clear_workspace H) (\<lambda>_. True)"
  unfolding clear_workspace_def by (rule succeeds_intros | assumption)+

lemma getitem_out_of_range: "\<not> i < length s \<Longrightarrow> getitem s i = raise IndexError"
  by (simp add: getitem_def)

lemma upper_sharp_s: "upper U [223] = [83, 83]" "upper U [97] = [65]"
  by (simp_all add: upper_def upper_char_def upper_latin1_def)

lemma mesh_by_letters_sharp_s:
  assumes "calm H"
  shows "fails_with (mesh_by_letters H [83, 83] [65] wp ph fnt) IndexError"
proof -
  have u: "[0..<length [83, 83 :: nat]] = [0, 1]" by (simp add: upt_rec)
  have eq: "mesh_by_letters H [83, 83] [65] wp ph fnt =
      bind (single_mesh H [83] [65] wp ph fnt (int 0 * 2 - int (length [83, 83 :: nat]) div 2 - 2))
        (\<lambda>_. bind (raise IndexError)
           (\<lambda>b. bind (single_mesh H [83] b wp ph fnt (int 1 * 2 - int (length [83, 83 :: nat]) div 2 - 2))
              (\<lambda>_. return ())))"
    unfolding mesh_by_letters_def Let_def u
    by (simp add: getitem_in_range getitem_out_of_range bind_return)
  show ?thesis
    unfolding eq
    by (rule fails_with_bind_right [OF single_mesh_succeeds [OF assms]],
        rule fails_with_bind_left, rule fails_with_raise)
qed

lemma main_sharp_s:
  assumes "calm H"
  shows "fails_with (main H [83, 83] [65] True wp ph fnt) IndexError"
  unfolding main_def if_True
  by (rule fails_with_bind_right [OF clear_workspace_succeeds [OF assms]],
      rule fails_with_bind_left, rule mesh_by_letters_sharp_s [OF assms])

lemma Model_mesh_execute_sharp_s:
  assumes "calm H"
  shows "fst (Model_mesh_execute H U
       \<lparr>fst_word = [223], snd_word = [97], font_path = p,
        by_letters = True, platform_height = h, with_top_platform = w\<rparr> tr) = Inl IndexError"
proof -
  have "fails_with (Model_mesh_execute H U
       \<lparr>fst_word = [223], snd_word = [97], font_path = p,
        by_letters = True, platform_height = h, with_top_platform = w\<rparr>) IndexError"
    unfolding Model_mesh_execute_def
    by (simp add: upper_sharp_s)
       (rule fails_with_bind_right [OF load_font_succeeds [OF assms]],
        rule fails_with_bind_left, rule main_sharp_s [OF assms])
  then show ?thesis by (simp add: fails_with_def)
qed

lemma filter_concat_replicate:
  "filter P (concat (replicate k xs)) = concat (replicate k (filter P xs))"
  by (induction k) simp_all

lemma concat_replicate_single: "concat (replicate k [x]) = replicate k x"
  by (induction k) simp_all

lemma main_intersections:
  assumes "main H f s bl wp ph fnt tr = (Inr v, tr')"
  shows "filter (\<lambda>k. k = APPLY ''Intersection on first object'') (steps tr') =
         filter (\<lambda>k. k = APPLY ''Intersection on first object'') (steps tr) @
         replicate (if bl then length f else 1) (APPLY ''Intersection on first object'')"
proof -
  have m: "filter (\<lambda>k. k = APPLY ''Intersection on first object'') (model_steps ph wp) =
           [APPLY ''Intersection on first object'']"
    by (simp add: model_steps_def platform_steps_def)
  have "steps tr' = steps tr @
          concat (replicate (if bl then length f else 1) (model_steps ph wp))"
    using emitsD' [OF main_emits assms] .
  then show ?thesis
    by (simp only: filter_append filter_concat_replicate m concat_replicate_single)
qed

section \<open>The claims\<close>




text \<open>
  C2. When \<^verbatim>\<open>by_letters\<close> is set and the two words differ in length,
  \<^verbatim>\<open>Model_mesh.execute\<close> reports the warning and returns CANCELLED, and the report is
  the only thing it does: \<^verbatim>\<open>main\<close> is not called and the scene is untouched. In every
  other case the check does not cancel: the font is loaded (or defaulted) and
  \<^verbatim>\<open>main\<close> is run from there, FINISHED being returned when it returns; the font step
  returns whenever the loader returns or raises \<^verbatim>\<open>RuntimeError\<close>.
\<close>
theorem Model_mesh_execute_check:
  "(by_letters self \<and> length (fst_word self) \<noteq> length (snd_word self) \<longrightarrow>
      Model_mesh_execute H U self tr =
        (Inr CANCELLED, tr @ [Call (Report ''WARNING''
           ''Words have to have the same length in order to model them separately by letters.'')])) \<and>
   (\<not> (by_letters self \<and> length (fst_word self) \<noteq> length (snd_word self)) \<longrightarrow>
      Model_mesh_execute H U self tr =
        (case load_font H (font_path self) tr of
           (Inl e, tr1) \<Rightarrow> (Inl e, tr1)
         | (Inr fnt, tr1) \<Rightarrow>
             (case main H (upper U (fst_word self)) (upper U (snd_word self)) (by_letters self)
                     (with_top_platform self) (platform_height self / 10) fnt tr1 of
                (Inl e, tr2) \<Rightarrow> (Inl e, tr2)
              | (Inr u, tr2) \<Rightarrow> (Inr FINISHED, tr2))) \<and>
      ((\<forall>e. raises H tr (Query (Fonts_load (font_path self))) = Some e \<longrightarrow> e = RuntimeError) \<longrightarrow>
         (\<exists>fnt tr1. load_font H (font_path self) tr = (Inr fnt, tr1))))"
proof (intro conjI impI)
  assume "by_letters self \<and> length (fst_word self) \<noteq> length (snd_word self)"
  then show "Model_mesh_execute H U self tr =
        (Inr CANCELLED, tr @ [Call (Report ''WARNING''
           ''Words have to have the same length in order to model them separately by letters.'')])"
    by (simp add: Model_mesh_execute_cancel)
next
  assume "\<not> (by_letters self \<and> length (fst_word self) \<noteq> length (snd_word self))"
  then show "Model_mesh_execute H U self tr =
        (case load_font H (font_path self) tr of
           (Inl e, tr1) \<Rightarrow> (Inl e, tr1)
         | (Inr fnt, tr1) \<Rightarrow>
             (case main H (upper U (fst_word self)) (upper U (snd_word self)) (by_letters self)
                     (with_top_platform self) (platform_height self / 10) fnt tr1 of
                (Inl e, tr2) \<Rightarrow> (Inl e, tr2)
              | (Inr u, tr2) \<Rightarrow> (Inr FINISHED, tr2)))"
    by (auto simp: Model_mesh_execute_def bind_def return_def split: prod.splits sum.splits)
next
  assume "\<forall>e. raises H tr (Query (Fonts_load (font_path self))) = Some e \<longrightarrow> e = RuntimeError"
  then have "raises H tr (Query (Fonts_load (font_path self))) = None \<or>
             raises H tr (Query (Fonts_load (font_path self))) = Some RuntimeError"
    by (cases "raises H tr (Query (Fonts_load (font_path self)))") simp_all
  then show "\<exists>fnt tr1. load_font H (font_path self) tr = (Inr fnt, tr1)"
    by (auto simp: load_font_None load_font_RuntimeError)
qed

theorem Model_mesh_execute_check_witness:
  "(by_letters \<lparr>fst_word = lit ''abc'', snd_word = lit ''de'', font_path = lit ''f.ttf'',
        by_letters = True, platform_height = 1, with_top_platform = False\<rparr> \<and>
    length (lit ''abc'') \<noteq> length (lit ''de'')) \<and>
   Model_mesh_execute quiet_host no_upper
       \<lparr>fst_word = lit ''abc'', snd_word = lit ''de'', font_path = lit ''f.ttf'',
        by_letters = True, platform_height = 1, with_top_platform = False\<rparr> [] =
     (Inr CANCELLED, [Call (Report ''WARNING''
        ''Words have to have the same length in order to model them separately by letters.'')]) \<and>
   raises quiet_host [] (Query (Fonts_load (lit ''f.ttf''))) = None \<and>
   (\<exists>fnt tr1. load_font quiet_host (lit ''f.ttf'') [] = (Inr fnt, tr1) \<and>
      Model_mesh_execute quiet_host no_upper
       \<lparr>fst_word = lit ''abc'', snd_word = lit ''de'', font_path = lit ''f.ttf'',
        by_letters = False, platform_height = 1, with_top_platform = False\<rparr> [] =
      (case main quiet_host (upper no_upper (lit ''abc'')) (upper no_upper (lit ''de'')) False False
              (1 / 10) fnt tr1 of
         (Inl e, tr2) \<Rightarrow> (Inl e, tr2)
       | (Inr u, tr2) \<Rightarrow> (Inr FINISHED, tr2)))"
proof -
  let ?m0 = "\<lparr>fst_word = lit ''abc'', snd_word = lit ''de'', font_path = lit ''f.ttf'',
        by_letters = True, platform_height = 1, with_top_platform = False\<rparr>"
  let ?m1 = "\<lparr>fst_word = lit ''abc'', snd_word = lit ''de'', font_path = lit ''f.ttf'',
        by_letters = False, platform_height = 1, with_top_platform = False\<rparr>"
  have c: "by_letters ?m0 \<and> length (fst_word ?m0) \<noteq> length (snd_word ?m0)"
    by (simp add: lit_def)
  have n: "\<not> (by_letters ?m1 \<and> length (fst_word ?m1) \<noteq> length (snd_word ?m1))" by simp
  have r: "raises quiet_host [] (Query (Fonts_load (lit ''f.ttf''))) = None"
    by (simp add: quiet_host_def)
  then have r': "\<forall>e. raises quiet_host [] (Query (Fonts_load (font_path ?m1))) = Some e \<longrightarrow>
                   e = RuntimeError" by simp
  note t0 = Model_mesh_execute_check [of ?m0 quiet_host no_upper "[]"]
  note t1 = Model_mesh_execute_check [of ?m1 quiet_host no_upper "[]"]
  from t0 c have a: "Model_mesh_execute quiet_host no_upper ?m0 [] =
     (Inr CANCELLED, [Call (Report ''WARNING''
        ''Words have to have the same length in order to model them separately by letters.'')])"
    by simp
  from t1 n r' obtain fnt tr1 where l: "load_font quiet_host (font_path ?m1) [] = (Inr fnt, tr1)"
    by blast
  from t1 n have "Model_mesh_execute quiet_host no_upper ?m1 [] =
        (case load_font quiet_host (font_path ?m1) [] of
           (Inl e, tr1) \<Rightarrow> (Inl e, tr1)
         | (Inr fnt, tr1) \<Rightarrow>
             (case main quiet_host (upper no_upper (fst_word ?m1)) (upper no_upper (snd_word ?m1))
                     (by_letters ?m1) (with_top_platform ?m1) (platform_height ?m1 / 10) fnt tr1 of
                (Inl e, tr2) \<Rightarrow> (Inl e, tr2)
              | (Inr u, tr2) \<Rightarrow> (Inr FINISHED, tr2)))" by blast
  then have b: "Model_mesh_execute quiet_host no_upper ?m1 [] =
      (case main quiet_host (upper no_upper (lit ''abc'')) (upper no_upper (lit ''de'')) False False
              (1 / 10) fnt tr1 of
         (Inl e, tr2) \<Rightarrow> (Inl e, tr2)
       | (Inr u, tr2) \<Rightarrow> (Inr FINISHED, tr2))"
    unfolding l by simp
  from l have l': "load_font quiet_host (lit ''f.ttf'') [] = (Inr fnt, tr1)" by simp
  from c have c': "by_letters ?m0 \<and> length (lit ''abc'') \<noteq> length (lit ''de'')" by simp
  from c' a r l' b show ?thesis by blast
qed

text \<open>
  C3. With an empty \<^verbatim>\<open>filename\<close>, \<^verbatim>\<open>Export_model.execute\<close> reports
  "Invalid directory path." and returns CANCELLED, and the report is the only thing it
  does. With a non-empty one it runs \<^verbatim>\<open>finalize_mesh\<close>, then \<^verbatim>\<open>export_to_stl\<close>, and
  returns FINISHED (an exception of either is passed on).
\<close>
theorem Export_model_execute_check:
  "(length (filename self) = 0 \<longrightarrow>
      Export_model_execute H self tr =
        (Inr CANCELLED, tr @ [Call (Report ''WARNING'' ''Invalid directory path.'')])) \<and>
   (length (filename self) \<noteq> 0 \<longrightarrow>
      Export_model_execute H self tr =
        (case finalize_mesh H (real_of_int (max_size self) / 100) tr of
           (Inl e, tr1) \<Rightarrow> (Inl e, tr1)
         | (Inr u, tr1) \<Rightarrow>
             (case export_to_stl H (filename self @ lit (CHR 0x5C # ''export.stl'')) tr1 of
                (Inl e, tr2) \<Rightarrow> (Inl e, tr2)
              | (Inr u', tr2) \<Rightarrow> (Inr FINISHED, tr2))))"
  by (auto simp: Export_model_execute_def bind_def emit_def return_def
           split: prod.splits sum.splits)

theorem Export_model_execute_check_witness:
  "length (filename \<lparr>filename = [], max_size = 10\<rparr>) = 0 \<and>
   Export_model_execute quiet_host \<lparr>filename = [], max_size = 10\<rparr> [] =
     (Inr CANCELLED, [Call (Report ''WARNING'' ''Invalid directory path.'')]) \<and>
   length (filename \<lparr>filename = lit ''out'', max_size = 10\<rparr>) \<noteq> 0 \<and>
   fst (Export_model_execute quiet_host \<lparr>filename = lit ''out'', max_size = 10\<rparr> []) = Inr FINISHED"
proof -
  let ?e0 = "\<lparr>filename = [], max_size = 10\<rparr>"
  let ?e1 = "\<lparr>filename = lit ''out'', max_size = 10\<rparr>"
  have 0: "length (filename ?e0) = 0" by simp
  have 1: "length (filename ?e1) \<noteq> 0" by (simp add: lit_def)
  from Export_model_execute_check [of ?e0 quiet_host "[]"] 0
  have a: "Export_model_execute quiet_host ?e0 [] =
     (Inr CANCELLED, [Call (Report ''WARNING'' ''Invalid directory path.'')])" by simp
  obtain u tr1 where f: "finalize_mesh quiet_host (real_of_int (max_size ?e1) / 100) [] = (Inr u, tr1)"
    using succeeds_run [OF finalize_mesh_succeeds [OF calm_quiet_host]] by blast
  obtain u' tr2 where x: "export_to_stl quiet_host (filename ?e1 @ lit (CHR 0x5C # ''export.stl'')) tr1 = (Inr u', tr2)"
    using succeeds_run [OF export_to_stl_succeeds [OF calm_quiet_host]] by blast
  from Export_model_execute_check [of ?e1 quiet_host "[]"] 1
  have "Export_model_execute quiet_host ?e1 [] =
        (case finalize_mesh quiet_host (real_of_int (max_size ?e1) / 100) [] of
           (Inl e, tr1) \<Rightarrow> (Inl e, tr1)
         | (Inr u, tr1) \<Rightarrow>
             (case export_to_stl quiet_host (filename ?e1 @ lit (CHR 0x5C # ''export.stl'')) tr1 of
                (Inl e, tr2) \<Rightarrow> (Inl e, tr2)
              | (Inr u', tr2) \<Rightarrow> (Inr FINISHED, tr2)))" by blast
  then have b: "fst (Export_model_execute quiet_host ?e1 []) = Inr FINISHED"
    by (simp only: f x prod.case sum.case fst_conv)
  from 0 a 1 b show ?thesis by blast
qed

text \<open>
  C4. With \<^verbatim>\<open>by_letters\<close> set and words of equal length \<open>n\<close>, \<^verbatim>\<open>main\<close> runs
  \<^verbatim>\<open>single_mesh\<close> once for every index \<open>i\<close> of \<open>0..n-1\<close>, in order, on the letters
  \<open>fst[i]\<close> and \<open>snd[i]\<close>; without \<^verbatim>\<open>by_letters\<close> it runs \<^verbatim>\<open>single_mesh\<close> once on the
  two whole words. A call of \<^verbatim>\<open>main\<close> that returns has applied the INTERSECT modifier
  exactly \<open>n\<close> times, respectively once.
\<close>
theorem main_invokes_single_mesh:
  "(length fst_w = length snd_w \<longrightarrow>
      main H fst_w snd_w True wp ph fnt =
        bind (clear_workspace H) (\<lambda>_.
        bind (for_each [0..<length fst_w]
                (\<lambda>i. single_mesh H [fst_w ! i] [snd_w ! i] wp ph fnt
                        (int i * 2 - int (length fst_w) div 2 - 2))) (\<lambda>_.
        bind (operator H (Select_all ''SELECT'')) (\<lambda>_.
        bind (operator H Join) (\<lambda>_.
        bind (get_context_object H) (\<lambda>ob.
        assign H (Set_location ob (0, 0, 0)))))))) \<and>
   main H fst_w snd_w False wp ph fnt =
        bind (clear_workspace H) (\<lambda>_.
        bind (single_mesh H fst_w snd_w wp ph fnt 0) (\<lambda>_.
        bind (operator H (Select_all ''SELECT'')) (\<lambda>_.
        bind (operator H Join) (\<lambda>_.
        bind (get_context_object H) (\<lambda>ob.
        assign H (Set_location ob (0, 0, 0))))))) \<and>
   (main H fst_w snd_w bl wp ph fnt tr = (Inr v, tr') \<longrightarrow>
      filter (\<lambda>k. k = APPLY ''Intersection on first object'') (steps tr') =
      filter (\<lambda>k. k = APPLY ''Intersection on first object'') (steps tr) @
      replicate (if bl then length fst_w else 1) (APPLY ''Intersection on first object''))"
  using main_intersections [of H fst_w snd_w bl wp ph fnt tr v tr']
  by (simp add: main_def mesh_by_letters_for_each)

theorem main_invokes_single_mesh_witness:
  "length [65, 66 :: nat] = length [67, 68 :: nat] \<and>
   main quiet_host [65, 66] [67, 68] True False (1 / 10) None =
        bind (clear_workspace quiet_host) (\<lambda>_.
        bind (bind (single_mesh quiet_host [65] [67] False (1 / 10) None (- 3)) (\<lambda>_.
              bind (single_mesh quiet_host [66] [68] False (1 / 10) None (- 1)) (\<lambda>_.
              return ()))) (\<lambda>_.
        bind (operator quiet_host (Select_all ''SELECT'')) (\<lambda>_.
        bind (operator quiet_host Join) (\<lambda>_.
        bind (get_context_object quiet_host) (\<lambda>ob.
        assign quiet_host (Set_location ob (0, 0, 0))))))) \<and>
   (\<exists>tr'. main quiet_host [65, 66] [67, 68] True False (1 / 10) None [] = (Inr (), tr') \<and>
      filter (\<lambda>k. k = APPLY ''Intersection on first object'') (steps tr') =
        [APPLY ''Intersection on first object'', APPLY ''Intersection on first object''])"
proof -
  let ?tr = "snd (main quiet_host [65, 66] [67, 68] True False (1 / 10) None [])"
  have l: "length [65, 66 :: nat] = length [67, 68 :: nat]" by simp
  have u: "[0..<length [65, 66 :: nat]] = [0, 1]" by (simp add: upt_rec)
  have r: "main quiet_host [65, 66] [67, 68] True False (1 / 10) None [] = (Inr (), ?tr)"
    using succeedsD [OF main_succeeds [OF calm_quiet_host]] by (intro runD) simp
  note t = main_invokes_single_mesh [of "[65, 66]" "[67, 68]" quiet_host False "1 / 10" None
      True "[]" "()" ?tr]
  from t l
  have "main quiet_host [65, 66] [67, 68] True False (1 / 10) None =
        bind (clear_workspace quiet_host) (\<lambda>_.
        bind (for_each [0..<length [65, 66 :: nat]]
                (\<lambda>i. single_mesh quiet_host [[65, 66] ! i] [[67, 68] ! i] False (1 / 10) None
                        (int i * 2 - int (length [65, 66 :: nat]) div 2 - 2))) (\<lambda>_.
        bind (operator quiet_host (Select_all ''SELECT'')) (\<lambda>_.
        bind (operator quiet_host Join) (\<lambda>_.
        bind (get_context_object quiet_host) (\<lambda>ob.
        assign quiet_host (Set_location ob (0, 0, 0)))))))" by blast
  then have a: "main quiet_host [65, 66] [67, 68] True False (1 / 10) None =
        bind (clear_workspace quiet_host) (\<lambda>_.
        bind (bind (single_mesh quiet_host [65] [67] False (1 / 10) None (- 3)) (\<lambda>_.
              bind (single_mesh quiet_host [66] [68] False (1 / 10) None (- 1)) (\<lambda>_.
              return ()))) (\<lambda>_.
        bind (operator quiet_host (Select_all ''SELECT'')) (\<lambda>_.
        bind (operator quiet_host Join) (\<lambda>_.
        bind (get_context_object quiet_host) (\<lambda>ob.
        assign quiet_host (Set_location ob (0, 0, 0)))))))"
    unfolding u by simp
  from t have "main quiet_host [65, 66] [67, 68] True False (1 / 10) None [] = (Inr (), ?tr) \<longrightarrow>
      filter (\<lambda>k. k = APPLY ''Intersection on first object'') (steps ?tr) =
      filter (\<lambda>k. k = APPLY ''Intersection on first object'') (steps []) @
      replicate (if True then length [65, 66 :: nat] else 1) (APPLY ''Intersection on first object'')"
    by blast
  with r have "filter (\<lambda>k. k = APPLY ''Intersection on first object'') (steps ?tr) =
        [APPLY ''Intersection on first object'', APPLY ''Intersection on first object'']"
    by (simp add: steps_Nil)
  with l a r show ?thesis by blast
qed

text \<open>
  C5 (amended). Only the top platform is optional. Every model that \<^verbatim>\<open>single_mesh\<close>
  builds gets the bottom platform (a cube at height 0, joined by a UNION modifier); the
  top platform (a cube at height 1.98 + platform height, joined by a second UNION) is
  added exactly when the option is set.
\<close>
theorem top_platform_optional:
  assumes "single_mesh H a b wp ph fnt cp tr = (Inr v, tr')"
  shows "filter is_platform (steps tr') =
           filter is_platform (steps tr) @
           (if wp then [CUBE_ADD 0, CUBE_ADD (1.98 + ph)] else [CUBE_ADD 0]) \<and>
         filter (\<lambda>k. k = APPLY ''Union of intersect mesh and platform'') (steps tr') =
           filter (\<lambda>k. k = APPLY ''Union of intersect mesh and platform'') (steps tr) @
           replicate (if wp then 2 else 1) (APPLY ''Union of intersect mesh and platform'')"
  using single_mesh_platforms [OF assms] by blast

theorem top_platform_optional_witness:
  "\<exists>tr'. single_mesh quiet_host (lit ''A'') (lit ''B'') True (1 / 10) None 0 [] = (Inr (), tr') \<and>
     filter is_platform (steps tr') = [CUBE_ADD 0, CUBE_ADD (1.98 + 1 / 10)] \<and>
     filter (\<lambda>k. k = APPLY ''Union of intersect mesh and platform'') (steps tr') =
       [APPLY ''Union of intersect mesh and platform'', APPLY ''Union of intersect mesh and platform'']"
proof -
  let ?tr = "snd (single_mesh quiet_host (lit ''A'') (lit ''B'') True (1 / 10) None 0 [])"
  have 1: "single_mesh quiet_host (lit ''A'') (lit ''B'') True (1 / 10) None 0 [] = (Inr (), ?tr)"
    using succeedsD [OF single_mesh_succeeds [OF calm_quiet_host]] by (intro runD) simp
  have "filter is_platform (steps ?tr) = [CUBE_ADD 0, CUBE_ADD (1.98 + 1 / 10)] \<and>
     filter (\<lambda>k. k = APPLY ''Union of intersect mesh and platform'') (steps ?tr) =
       [APPLY ''Union of intersect mesh and platform'', APPLY ''Union of intersect mesh and platform'']"
    using top_platform_optional [OF 1] by (simp add: steps_Nil eval_nat_numeral)
  with 1 show ?thesis by blast
qed

text \<open>
  With the option not set a platform is added all the same: the bottom one.
\<close>
theorem platform_without_option_counterexample:
  "\<exists>tr'. single_mesh quiet_host (lit ''A'') (lit ''B'') False (1 / 10) None 0 [] = (Inr (), tr') \<and>
     filter is_platform (steps tr') = [CUBE_ADD 0] \<and>
     APPLY ''Union of intersect mesh and platform'' \<in> set (steps tr')"
proof -
  let ?tr = "snd (single_mesh quiet_host (lit ''A'') (lit ''B'') False (1 / 10) None 0 [])"
  have 1: "single_mesh quiet_host (lit ''A'') (lit ''B'') False (1 / 10) None 0 [] = (Inr (), ?tr)"
    using succeedsD [OF single_mesh_succeeds [OF calm_quiet_host]] by (intro runD) simp
  have "steps ?tr = steps [] @ model_steps (1 / 10) False"
    using emitsD' [OF single_mesh_emits 1] .
  then have "filter is_platform (steps ?tr) = [CUBE_ADD 0] \<and>
     APPLY ''Union of intersect mesh and platform'' \<in> set (steps ?tr)"
    by (simp add: steps_Nil model_steps_def platform_steps_def)
  with 1 show ?thesis by blast
qed

text \<open>
  C6 (amended). Apart from the two input checks and the fallback to the default font,
  every exception raised while one of the two operators runs is passed on by it: the
  exceptions raised in the course of \<^verbatim>\<open>Export_model.execute\<close> are exactly the one it
  raises, if any; those raised in the course of \<^verbatim>\<open>Model_mesh.execute\<close> are the
  \<^verbatim>\<open>RuntimeError\<close> of a font that could not be loaded, which is caught, followed by the
  one it raises, if any.
\<close>
theorem failures_propagate_but_font:
  "(Export_model_execute H e tr = (r, tr') \<longrightarrow>
      (\<exists>new. tr' = tr @ new \<and> failures new = outcome r)) \<and>
   (Model_mesh_execute H U m tr = (r', tr'') \<longrightarrow>
      (\<exists>new. tr'' = tr @ new \<and>
         failures new =
           (if \<not> (by_letters m \<and> length (fst_word m) \<noteq> length (snd_word m)) \<and>
               raises H tr (Query (Fonts_load (font_path m))) = Some RuntimeError
            then [RuntimeError] else []) @ outcome r'))"
  using strictD [OF strict_Export_model_execute] Model_mesh_execute_failures by blast

theorem failures_propagate_but_font_witness:
  "\<exists>tr' tr''.
     Export_model_execute font_failing_host \<lparr>filename = lit ''out'', max_size = 10\<rparr> [] =
       (Inr FINISHED, tr') \<and> failures tr' = [] \<and>
     Model_mesh_execute font_failing_host no_upper
       \<lparr>fst_word = lit ''ab'', snd_word = lit ''cd'', font_path = lit ''f.ttf'',
        by_letters = False, platform_height = 1, with_top_platform = False\<rparr> [] =
       (Inr FINISHED, tr'') \<and> failures tr'' = [RuntimeError]"
proof -
  let ?e = "\<lparr>filename = lit ''out'', max_size = 10\<rparr>"
  let ?m = "\<lparr>fst_word = lit ''ab'', snd_word = lit ''cd'', font_path = lit ''f.ttf'',
        by_letters = False, platform_height = 1, with_top_platform = False\<rparr>"
  let ?t1 = "snd (Export_model_execute font_failing_host ?e [])"
  let ?t2 = "snd (Model_mesh_execute font_failing_host no_upper ?m [])"
  have 1: "Export_model_execute font_failing_host ?e [] = (Inr FINISHED, ?t1)"
    by (rule runD, rule Export_model_execute_succeeds [OF calm_font_failing_host])
       (simp add: lit_def)
  have 2: "Model_mesh_execute font_failing_host no_upper ?m [] = (Inr FINISHED, ?t2)"
    by (rule runD, rule Model_mesh_execute_succeeds [OF calm_font_failing_host]) simp_all
  have r: "raises font_failing_host [] (Query (Fonts_load (font_path ?m))) = Some RuntimeError"
    by (simp add: font_failing_host_def)
  from failures_propagate_but_font [of font_failing_host ?e "[]" "Inr FINISHED" ?t1
      no_upper ?m "Inr FINISHED" ?t2] 1 2 r
  have "failures ?t1 = [] \<and> failures ?t2 = [RuntimeError]" by simp
  with 1 2 show ?thesis by blast
qed

text \<open>
  An exception that is raised and not passed on: the font cannot be loaded, and
  \<^verbatim>\<open>Model_mesh.execute\<close> returns FINISHED.
\<close>
theorem caught_font_failure_counterexample:
  "\<exists>tr'.
     Model_mesh_execute font_failing_host no_upper
       \<lparr>fst_word = lit ''ab'', snd_word = lit ''cd'', font_path = lit ''f.ttf'',
        by_letters = False, platform_height = 1, with_top_platform = False\<rparr> [] =
       (Inr FINISHED, tr') \<and> Fail RuntimeError \<in> set tr' \<and>
     failures tr' \<noteq> outcome (Inr FINISHED :: exn + status)"
proof -
  let ?m = "\<lparr>fst_word = lit ''ab'', snd_word = lit ''cd'', font_path = lit ''f.ttf'',
        by_letters = False, platform_height = 1, with_top_platform = False\<rparr>"
  let ?t2 = "snd (Model_mesh_execute font_failing_host no_upper ?m [])"
  have 2: "Model_mesh_execute font_failing_host no_upper ?m [] = (Inr FINISHED, ?t2)"
    by (rule runD, rule Model_mesh_execute_succeeds [OF calm_font_failing_host]) simp_all
  have r: "raises font_failing_host [] (Query (Fonts_load (font_path ?m))) = Some RuntimeError"
    by (simp add: font_failing_host_def)
  from Model_mesh_execute_failures [OF 2] r
  have f: "failures ?t2 = [RuntimeError]" by simp
  have "\<And>tr. failures tr = [RuntimeError] \<Longrightarrow> Fail RuntimeError \<in> set tr"
  proof -
    fix tr show "failures tr = [RuntimeError] \<Longrightarrow> Fail RuntimeError \<in> set tr"
    proof (induction tr)
      case Nil
      then show ?case by (simp add: failures_simps)
    next
      case (Cons a tr)
      then show ?case by (cases a) (auto simp: failures_simps)
    qed
  qed
  from this [OF f] f 2 show ?thesis by auto
qed

text \<open>
  C7. When \<^verbatim>\<open>Export_model.execute\<close> returns FINISHED, the file name \<open>f\<close> is not
  empty, the last call of the run is the host's STL exporter with the path
  \<open>f + "\\export.stl"\<close> and \<^verbatim>\<open>ascii=False\<close>, and it is the only export of the run.
\<close>
theorem export_is_binary_stl:
  assumes "Export_model_execute H self tr = (Inr FINISHED, tr')"
  shows "filename self \<noteq> [] \<and>
     (\<exists>t. tr' = t @ [Call (Op (Select_all ''SELECT'')),
        Call (Op (Export_stl True (filename self @ lit (CHR 0x5C # ''export.stl''))
                    ''*.stl'' False True ''Y'' ''Z'' 1))]) \<and>
     filter is_export (steps tr') = filter is_export (steps tr) @
        [EXPORT (filename self @ lit (CHR 0x5C # ''export.stl'')) False]"
proof -
  have f: "fst (Export_model_execute H self tr) = Inr FINISHED" using assms by simp
  have "steps tr' = steps tr @ export_steps (filename self @ lit (CHR 0x5C # ''export.stl''))"
    using Export_model_execute_emits [OF f] assms by simp
  then have "filter is_export (steps tr') = filter is_export (steps tr) @
        [EXPORT (filename self @ lit (CHR 0x5C # ''export.stl'')) False]"
    by (simp add: export_steps_def)
  with Export_model_execute_FINISHED [OF f] Export_model_execute_last [OF assms]
  show ?thesis by blast
qed

theorem export_is_binary_stl_witness:
  "\<exists>tr'. Export_model_execute quiet_host \<lparr>filename = lit ''out'', max_size = 10\<rparr> [] =
           (Inr FINISHED, tr') \<and>
     (\<exists>t. tr' = t @ [Call (Op (Select_all ''SELECT'')),
        Call (Op (Export_stl True (lit ''out'' @ lit (CHR 0x5C # ''export.stl''))
                    ''*.stl'' False True ''Y'' ''Z'' 1))]) \<and>
     filter is_export (steps tr') = [EXPORT (lit ''out'' @ lit (CHR 0x5C # ''export.stl'')) False]"
proof -
  let ?e = "\<lparr>filename = lit ''out'', max_size = 10\<rparr>"
  let ?tr = "snd (Export_model_execute quiet_host ?e [])"
  have 1: "Export_model_execute quiet_host ?e [] = (Inr FINISHED, ?tr)"
    by (rule runD, rule Export_model_execute_succeeds [OF calm_quiet_host]) (simp add: lit_def)
  have "(\<exists>t. ?tr = t @ [Call (Op (Select_all ''SELECT'')),
        Call (Op (Export_stl True (lit ''out'' @ lit (CHR 0x5C # ''export.stl''))
                    ''*.stl'' False True ''Y'' ''Z'' 1))]) \<and>
     filter is_export (steps ?tr) = [EXPORT (lit ''out'' @ lit (CHR 0x5C # ''export.stl'')) False]"
    using export_is_binary_stl [OF 1] by (simp add: steps_Nil)
  with 1 show ?thesis by blast
qed

text \<open>
  C8 (amended). When the length check does not cancel, \<^verbatim>\<open>Model_mesh.execute\<close> passes
  \<^verbatim>\<open>self.fst.upper()\<close> and \<^verbatim>\<open>self.snd.upper()\<close> to \<^verbatim>\<open>main\<close>. Two invocations whose
  words are made of code points below U+0100 (ASCII and Latin-1) and differ only in
  letter case pass the same words to \<^verbatim>\<open>main\<close> and behave the same.
\<close>
theorem Model_mesh_execute_uppercase:
  "(\<not> (by_letters self \<and> length (fst_word self) \<noteq> length (snd_word self)) \<longrightarrow>
      Model_mesh_execute H U self =
        bind (load_font H (font_path self)) (\<lambda>fnt.
        bind (main H (upper U (fst_word self)) (upper U (snd_word self)) (by_letters self)
                (with_top_platform self) (platform_height self / 10) fnt) (\<lambda>_.
        return FINISHED))) \<and>
   (latin1 (fst_word self) \<and> latin1 f' \<and> latin1 (snd_word self) \<and> latin1 s' \<and>
    same_up_to_case L (fst_word self) f' \<and> same_up_to_case L (snd_word self) s' \<longrightarrow>
      upper U f' = upper U (fst_word self) \<and> upper U s' = upper U (snd_word self) \<and>
      Model_mesh_execute H U (self\<lparr>fst_word := f', snd_word := s'\<rparr>) =
      Model_mesh_execute H U self)"
proof (intro conjI impI)
  assume "\<not> (by_letters self \<and> length (fst_word self) \<noteq> length (snd_word self))"
  then show "Model_mesh_execute H U self =
        bind (load_font H (font_path self)) (\<lambda>fnt.
        bind (main H (upper U (fst_word self)) (upper U (snd_word self)) (by_letters self)
                (with_top_platform self) (platform_height self / 10) fnt) (\<lambda>_.
        return FINISHED))"
    by (auto simp: Model_mesh_execute_def)
next
  assume a: "latin1 (fst_word self) \<and> latin1 f' \<and> latin1 (snd_word self) \<and> latin1 s' \<and>
    same_up_to_case L (fst_word self) f' \<and> same_up_to_case L (snd_word self) s'"
  then have u: "upper U (fst_word self) = upper U f'" "upper U (snd_word self) = upper U s'"
    using same_up_to_case_upper [of L _ _ U] by blast+
  from a have l: "length (fst_word self) = length f'" "length (snd_word self) = length s'"
    using same_up_to_case_length [of L] by blast+
  from u show "upper U f' = upper U (fst_word self)" "upper U s' = upper U (snd_word self)"
    by simp_all
  from u l show "Model_mesh_execute H U (self\<lparr>fst_word := f', snd_word := s'\<rparr>) =
      Model_mesh_execute H U self"
    by (simp add: Model_mesh_execute_def)
qed

theorem Model_mesh_execute_uppercase_witness:
  "latin1 (lit ''ab'') \<and> latin1 (lit ''AB'') \<and> latin1 (lit ''cd'') \<and> latin1 (lit ''Cd'') \<and>
   same_up_to_case sharp_s_lower (lit ''ab'') (lit ''AB'') \<and>
   same_up_to_case sharp_s_lower (lit ''cd'') (lit ''Cd'') \<and>
   upper no_upper (lit ''AB'') = [65, 66] \<and> upper no_upper (lit ''Cd'') = [67, 68] \<and>
   Model_mesh_execute quiet_host no_upper
       \<lparr>fst_word = lit ''AB'', snd_word = lit ''Cd'', font_path = lit ''f.ttf'',
        by_letters = True, platform_height = 1, with_top_platform = False\<rparr> =
   Model_mesh_execute quiet_host no_upper
       \<lparr>fst_word = lit ''ab'', snd_word = lit ''cd'', font_path = lit ''f.ttf'',
        by_letters = True, platform_height = 1, with_top_platform = False\<rparr> \<and>
   Model_mesh_execute quiet_host no_upper
       \<lparr>fst_word = lit ''ab'', snd_word = lit ''cd'', font_path = lit ''f.ttf'',
        by_letters = True, platform_height = 1, with_top_platform = False\<rparr> =
     bind (load_font quiet_host (lit ''f.ttf'')) (\<lambda>fnt.
     bind (main quiet_host [65, 66] [67, 68] True False (1 / 10) fnt) (\<lambda>_.
     return FINISHED))"
proof -
  let ?m = "\<lparr>fst_word = lit ''ab'', snd_word = lit ''cd'', font_path = lit ''f.ttf'',
        by_letters = True, platform_height = 1, with_top_platform = False\<rparr>"
  have l: "latin1 (fst_word ?m)" "latin1 (lit ''AB'')" "latin1 (snd_word ?m)" "latin1 (lit ''Cd'')"
    by (simp_all add: latin1_def lit_def)
  have s1: "same_up_to_case sharp_s_lower (fst_word ?m) (lit ''AB'')"
    by (simp add: same_up_to_case_def lit_def lower_char_def lower_latin1_def)
  have s2: "same_up_to_case sharp_s_lower (snd_word ?m) (lit ''Cd'')"
    by (simp add: same_up_to_case_def lit_def lower_char_def lower_latin1_def)
  have n: "\<not> (by_letters ?m \<and> length (fst_word ?m) \<noteq> length (snd_word ?m))"
    by (simp add: lit_def)
  note t = Model_mesh_execute_uppercase [of ?m quiet_host no_upper "lit ''AB''" "lit ''Cd''" sharp_s_lower]
  from t l s1 s2 have a: "upper no_upper (lit ''AB'') = upper no_upper (fst_word ?m) \<and>
     upper no_upper (lit ''Cd'') = upper no_upper (snd_word ?m) \<and>
     Model_mesh_execute quiet_host no_upper
       (?m\<lparr>fst_word := lit ''AB'', snd_word := lit ''Cd''\<rparr>) =
     Model_mesh_execute quiet_host no_upper ?m" by blast
  from t n have "Model_mesh_execute quiet_host no_upper ?m =
        bind (load_font quiet_host (font_path ?m)) (\<lambda>fnt.
        bind (main quiet_host (upper no_upper (fst_word ?m)) (upper no_upper (snd_word ?m))
                (by_letters ?m) (with_top_platform ?m) (platform_height ?m / 10) fnt) (\<lambda>_.
        return FINISHED))" by blast
  then have b: "Model_mesh_execute quiet_host no_upper ?m =
     bind (load_font quiet_host (lit ''f.ttf'')) (\<lambda>fnt.
     bind (main quiet_host [65, 66] [67, 68] True False (1 / 10) fnt) (\<lambda>_.
     return FINISHED))"
    by (simp add: upper_ab)
  from l s1 s2 a b show ?thesis by (simp add: upper_ab)
qed

text \<open>
  Without the restriction to code points below U+0100 the consequence fails: the capital
  sharp s (U+1E9E) and the sharp s (U+00DF) differ only in letter case, the first is its
  own uppercase form and the second becomes "SS". With the second word "a" and
  \<^verbatim>\<open>by_letters\<close> set, on a host where no call fails, the first invocation returns
  FINISHED and the second raises \<^verbatim>\<open>IndexError\<close>.
\<close>
theorem case_pair_uppercased_apart:
  "same_up_to_case sharp_s_lower [7838] [223] \<and>
   same_up_to_case sharp_s_lower [97] [97] \<and>
   upper no_upper [7838] = [7838] \<and> upper no_upper [223] = [83, 83] \<and>
   fst (Model_mesh_execute quiet_host no_upper
       \<lparr>fst_word = [7838], snd_word = [97], font_path = lit ''f.ttf'',
        by_letters = True, platform_height = 1, with_top_platform = False\<rparr> []) = Inr FINISHED \<and>
   fst (Model_mesh_execute quiet_host no_upper
       \<lparr>fst_word = [223], snd_word = [97], font_path = lit ''f.ttf'',
        by_letters = True, platform_height = 1, with_top_platform = False\<rparr> []) = Inl IndexError"
proof -
  have u: "upper no_upper [7838] = [7838]"
    by (simp add: upper_def upper_char_def no_upper_def)
  have 1: "fst (Model_mesh_execute quiet_host no_upper
       \<lparr>fst_word = [7838], snd_word = [97], font_path = lit ''f.ttf'',
        by_letters = True, platform_height = 1, with_top_platform = False\<rparr> []) = Inr FINISHED"
    by (rule Model_mesh_execute_succeeds [OF calm_quiet_host]) (simp_all add: u upper_sharp_s)
  have 2: "same_up_to_case sharp_s_lower [7838] [223]" "same_up_to_case sharp_s_lower [97] [97]"
    by (simp_all add: same_up_to_case_def lower_char_def lower_latin1_def sharp_s_lower_def)
  from 1 2 u Model_mesh_execute_sharp_s [OF calm_quiet_host] show ?thesis
    by (simp add: upper_sharp_s)
qed

text \<open>
  C9 (the code at a failing input). \<^verbatim>\<open>Model_mesh.execute\<close> compares the lengths of the
  words as entered and passes on their uppercase forms. For the words "sharp s" (the one
  code point U+00DF) and "a" the lengths agree, the uppercase forms are "SS" and "A", and on a host where no
  call fails the second round of the loop of \<^verbatim>\<open>mesh_by_letters\<close> raises
  \<^verbatim>\<open>IndexError\<close>. (Under equal lengths of the words it is given, the loop never does:
  \<open>mesh_by_letters_for_each\<close>.)
\<close>
theorem sharp_s_raises_IndexError:
  "length [223 :: nat] = length [97 :: nat] \<and>
   upper no_upper [223] = [83, 83] \<and> upper no_upper [97] = [65] \<and>
   fst (Model_mesh_execute quiet_host no_upper
       \<lparr>fst_word = [223], snd_word = [97], font_path = lit ''f.ttf'',
        by_letters = True, platform_height = 1, with_top_platform = False\<rparr> []) = Inl IndexError"
  using Model_mesh_execute_sharp_s [OF calm_quiet_host] by (simp add: upper_sharp_s)

end
